theory Spec2Isabelle
  imports Complex_Main "HOL-Library.AList"
begin

section \<open>Numbers and Python errors\<close>

text \<open>
  Floating-point values are idealised: a finite value is a real number (no rounding, no
  overflow, no signed zero), and the three special values of IEEE arithmetic are kept,
  because the code produces and compares them (\<open>np.nan\<close> is the missing-value marker,
  and a numpy division by zero yields an infinity or not-a-number with a warning, not an
  exception).
\<close>

datatype pyfloat = Fin real | PInf | NInf | NaN

datatype pyerror =
  ValueError | TypeError | UnboundLocalError | AttributeError | IndexError | KeyError

fun fneg :: "pyfloat \<Rightarrow> pyfloat" where
  "fneg (Fin x) = Fin (- x)"
| "fneg PInf = NInf"
| "fneg NInf = PInf"
| "fneg NaN = NaN"

fun fadd :: "pyfloat \<Rightarrow> pyfloat \<Rightarrow> pyfloat" where
  "fadd (Fin x) (Fin y) = Fin (x + y)"
| "fadd NaN b = NaN"
| "fadd a NaN = NaN"
| "fadd PInf NInf = NaN"
| "fadd NInf PInf = NaN"
| "fadd PInf b = PInf"
| "fadd a PInf = PInf"
| "fadd NInf b = NInf"
| "fadd a NInf = NInf"

definition fsub :: "pyfloat \<Rightarrow> pyfloat \<Rightarrow> pyfloat" where
  "fsub a b = fadd a (fneg b)"

fun fmul :: "pyfloat \<Rightarrow> pyfloat \<Rightarrow> pyfloat" where
  "fmul (Fin x) (Fin y) = Fin (x * y)"
| "fmul NaN b = NaN"
| "fmul a NaN = NaN"
| "fmul PInf (Fin y) = (if y = 0 then NaN else if 0 < y then PInf else NInf)"
| "fmul NInf (Fin y) = (if y = 0 then NaN else if 0 < y then NInf else PInf)"
| "fmul (Fin x) PInf = (if x = 0 then NaN else if 0 < x then PInf else NInf)"
| "fmul (Fin x) NInf = (if x = 0 then NaN else if 0 < x then NInf else PInf)"
| "fmul PInf PInf = PInf"
| "fmul PInf NInf = NInf"
| "fmul NInf PInf = NInf"
| "fmul NInf NInf = PInf"

fun fdiv :: "pyfloat \<Rightarrow> pyfloat \<Rightarrow> pyfloat" where
  "fdiv (Fin x) (Fin y) =
     (if y = 0 then (if x = 0 then NaN else if 0 < x then PInf else NInf)
      else Fin (x / y))"
| "fdiv NaN b = NaN"
| "fdiv a NaN = NaN"
| "fdiv (Fin x) PInf = Fin 0"
| "fdiv (Fin x) NInf = Fin 0"
| "fdiv PInf (Fin y) = (if 0 \<le> y then PInf else NInf)"
| "fdiv NInf (Fin y) = (if 0 \<le> y then NInf else PInf)"
| "fdiv PInf b = NaN"
| "fdiv NInf b = NaN"

text \<open>Comparisons: every comparison with not-a-number is false.\<close>

fun fge :: "pyfloat \<Rightarrow> pyfloat \<Rightarrow> bool" where
  "fge (Fin x) (Fin y) = (y \<le> x)"
| "fge NaN b = False"
| "fge a NaN = False"
| "fge PInf b = True"
| "fge a NInf = True"
| "fge a PInf = False"
| "fge NInf b = False"

fun flt :: "pyfloat \<Rightarrow> pyfloat \<Rightarrow> bool" where
  "flt (Fin x) (Fin y) = (x < y)"
| "flt NaN b = False"
| "flt a NaN = False"
| "flt PInf b = False"
| "flt a NInf = False"
| "flt a PInf = True"
| "flt NInf b = True"

text \<open>
  A \<open>for\<close> loop whose body may raise: the first exception ends the loop and is the
  result; otherwise the state is threaded through the items in order.
\<close>

fun for_each :: "('s \<Rightarrow> 'x \<Rightarrow> pyerror + 's) \<Rightarrow> 'x list \<Rightarrow> 's \<Rightarrow> pyerror + 's" where
  "for_each body [] s = Inr s"
| "for_each body (x # xs) s =
     (case body s x of Inl e \<Rightarrow> Inl e | Inr s' \<Rightarrow> for_each body xs s')"

section \<open>The matching and quantification orchestrator (analysis.py)\<close>

subsection \<open>Collaborators\<close>

text \<open>
  The sequence, injection, peak, analyte and layout classes are outside the two source
  files; the orchestrator only uses the attributes and operations below, which are taken
  as given: an attribute is a field, an operation is a function field, and a lookup that
  returns \<open>None\<close> in Python returns \<open>None\<close> here. The analyte class is the type
  parameter \<open>'a\<close>. An exception raised inside a collaborator is outside the model.
\<close>

record 'a peak =
  rt :: pyfloat
  ri :: pyfloat
  height :: pyfloat
  area :: pyfloat
  flag :: "string option"   \<comment> \<open>\<open>None\<close>: the peak has no attribute \<open>flag\<close>\<close>
  analyte :: 'a

record 'a ms_injection =
  sample_name :: string
  get_plate_position :: string
  peaks :: "'a peak list"   \<comment> \<open>\<open>peaks.values()\<close>, in the dictionary's order\<close>
  match_mol :: "'a \<Rightarrow> 'a peak option"

record 'a fid_injection =
  match_ri :: "pyfloat \<Rightarrow> 'a \<Rightarrow> 'a peak option"
  quantify :: "pyfloat \<Rightarrow> pyfloat"

record 'a layout =
  get_product :: "string \<Rightarrow> 'a"
  get_substrate :: "string \<Rightarrow> int \<Rightarrow> 'a"
  shape :: "nat \<times> nat"

text \<open>\<open>ms_sequence.injections.items()\<close>: the injections by name, in order.\<close>

type_synonym 'a ms_sequence = "(string \<times> 'a ms_injection) list"

text \<open>\<open>fid_sequence[name]\<close>.\<close>

type_synonym 'a fid_sequence = "string \<Rightarrow> 'a fid_injection"

text \<open>
  The values a result entry holds: a float, a string (a class label, or the empty
  analyte label) or an analyte object. An entry is the Python list of four values.
\<close>

datatype 'a pyval = Float pyfloat | Str string | Obj 'a

type_synonym 'a results = "string \<rightharpoonup> 'a pyval list"

subsection \<open>Cross-modality quantification\<close>

text \<open>
  The body of the loop of \<open>__match_and_quantify\<close> (lines 115 to 134). With a mode that
  is neither \<open>yield\<close> nor \<open>conv\<close> the variable \<open>analyte\<close> is never bound and line 122
  raises.
\<close>

definition match_and_quantify_body ::
  "'a fid_sequence \<Rightarrow> 'a layout \<Rightarrow> string \<Rightarrow> int \<Rightarrow> 'a results \<Rightarrow>
   string \<times> 'a ms_injection \<Rightarrow> pyerror + 'a results" where
  "match_and_quantify_body fid_sequence lay mode index results_dict item =
     (let name = fst item; ms_inj = snd item;
          fid_inj = fid_sequence name;
          pos = get_plate_position ms_inj
      in if mode \<noteq> ''yield'' \<and> mode \<noteq> ''conv'' then Inl UnboundLocalError
         else
           let an = (if mode = ''conv'' then get_substrate lay pos index
                     else get_product lay (get_plate_position ms_inj))
           in case match_mol ms_inj an of
                Some mz_match \<Rightarrow>
                  (case match_ri fid_inj (ri mz_match) (analyte mz_match) of
                     Some ri_match \<Rightarrow>
                       (let yield0 = quantify fid_inj (rt ri_match);
                            yield1 = (if mode = ''conv'' then fsub (Fin 100) yield0 else yield0)
                        in Inr (results_dict(pos \<mapsto>
                             [Float yield1, Float (rt mz_match), Float (rt ri_match), Obj an])))
                   | None \<Rightarrow> Inr (results_dict(pos \<mapsto> [Float NaN, Float NaN, Float NaN, Str ''''])))
              | None \<Rightarrow> Inr (results_dict(pos \<mapsto> [Float NaN, Float NaN, Float NaN, Str ''''])))"

definition match_and_quantify ::
  "'a ms_sequence \<Rightarrow> 'a fid_sequence \<Rightarrow> 'a layout \<Rightarrow> string \<Rightarrow> int \<Rightarrow> pyerror + 'a results" where
  "match_and_quantify ms_sequence fid_sequence lay mode index =
     for_each (match_and_quantify_body fid_sequence lay mode index) ms_sequence Map.empty"

subsection \<open>MS-only quantification\<close>

text \<open>What \<open>print\<close> writes: the missing-standard notice of line 284 and the report of line 302.\<close>

datatype 'a diag =
  NoStandardFound string
| MatchReport string pyfloat pyfloat 'a

text \<open>
  The loop of \<open>__ms_quantify\<close> assigns \<open>product_ratio\<close> and \<open>yield_\<close> only on some
  paths, and a Python local keeps its value from one iteration to the next; both are
  therefore part of the loop state (\<open>None\<close>: not bound yet).
\<close>

record 'a ms_state =
  results_dict :: "'a results"
  product_ratio :: "pyfloat option"
  yield_val :: "string option"   \<comment> \<open>the local \<open>yield_\<close>\<close>
  out :: "'a diag list"

text \<open>
  \<open>getattr(peak, ms_quantification_mode)\<close>: the documented names are \<open>height\<close> and
  \<open>area\<close>; any other name is an attribute error here.
\<close>

definition getattr_peak :: "'a peak \<Rightarrow> string \<Rightarrow> pyerror + pyfloat" where
  "getattr_peak p name =
     (if name = ''height'' then Inr (height p)
      else if name = ''area'' then Inr (area p)
      else Inl AttributeError)"

text \<open>Line 270: \<open>sum\<close> starts from 0 and adds the attribute of every peak in order.\<close>

fun sum_attr :: "string \<Rightarrow> 'a peak list \<Rightarrow> pyfloat \<Rightarrow> pyerror + pyfloat" where
  "sum_attr name [] acc = Inr acc"
| "sum_attr name (p # ps) acc =
     (case getattr_peak p name of
        Inl e \<Rightarrow> Inl e
      | Inr v \<Rightarrow> sum_attr name ps (fadd acc v))"

text \<open>Lines 275 to 279: the first peak flagged as the standard, if any.\<close>

fun find_standard :: "string \<Rightarrow> 'a peak list \<Rightarrow> pyerror + pyfloat option" where
  "find_standard name [] = Inr None"
| "find_standard name (p # ps) =
     (if flag p = Some ''standard''
      then (case getattr_peak p name of Inl e \<Rightarrow> Inl e | Inr v \<Rightarrow> Inr (Some v))
      else find_standard name ps)"

text \<open>Lines 267 to 284: the ratio, where one is computed.\<close>

definition compute_ratio ::
  "string \<Rightarrow> string \<Rightarrow> 'a ms_injection \<Rightarrow> 'a peak \<Rightarrow> 'a ms_state \<Rightarrow> pyerror + 'a ms_state" where
  "compute_ratio ms_quantification_mode relative_to ms_inj mz_match st =
     (if relative_to = ''all'' then
        (case sum_attr ms_quantification_mode (peaks ms_inj) (Fin 0) of
           Inl e \<Rightarrow> Inl e
         | Inr total_area_or_height \<Rightarrow>
             (case getattr_peak mz_match ms_quantification_mode of
                Inl e \<Rightarrow> Inl e
              | Inr product_area_or_height \<Rightarrow>
                  Inr (st\<lparr>product_ratio := Some (fmul (fdiv product_area_or_height total_area_or_height) (Fin 100))\<rparr>)))
      else if relative_to = ''standard'' then
        (case find_standard ms_quantification_mode (peaks ms_inj) of
           Inl e \<Rightarrow> Inl e
         | Inr (Some standard_area_or_height) \<Rightarrow>
             (case getattr_peak mz_match ms_quantification_mode of
                Inl e \<Rightarrow> Inl e
              | Inr product_area_or_height \<Rightarrow>
                  Inr (st\<lparr>product_ratio := Some (fmul (fdiv product_area_or_height standard_area_or_height) (Fin 100))\<rparr>))
         | Inr None \<Rightarrow> Inr (st\<lparr>out := out st @ [NoStandardFound (sample_name ms_inj)]\<rparr>))
      else Inr st)"

text \<open>
  Lines 288 to 297: the class of a ratio. When no comparison holds (the ratio is
  not-a-number) \<open>yield_\<close> keeps what it was.
\<close>

definition classify :: "pyfloat \<Rightarrow> string option \<Rightarrow> string option" where
  "classify ratio old =
     (if fge ratio (Fin 70) then Some ''excellent''
      else if fge ratio (Fin 50) then Some ''good''
      else if fge ratio (Fin 20) then Some ''fair''
      else if fge ratio (Fin 5) then Some ''poor''
      else if flt ratio (Fin 5) then Some ''trace''
      else old)"

text \<open>
  The body of the loop of \<open>__ms_quantify\<close> (lines 255 to 304). Reading an unbound
  local raises; line 300 subtracts a string from 100, which raises a type error.
\<close>

definition ms_quantify_body ::
  "'a layout \<Rightarrow> string \<Rightarrow> string \<Rightarrow> string \<Rightarrow> int \<Rightarrow> 'a ms_state \<Rightarrow>
   string \<times> 'a ms_injection \<Rightarrow> pyerror + 'a ms_state" where
  "ms_quantify_body lay mode ms_quantification_mode relative_to index st item =
     (let ms_inj = snd item;
          pos = get_plate_position ms_inj
      in if mode \<noteq> ''yield'' \<and> mode \<noteq> ''conv'' then Inl ValueError
         else
           let an = (if mode = ''yield'' then get_product lay (get_plate_position ms_inj)
                     else get_substrate lay pos index)
           in case match_mol ms_inj an of
                None \<Rightarrow> Inr (st\<lparr>results_dict := (results_dict st)(pos \<mapsto> [Float NaN, Float NaN, Float NaN, Str ''''])\<rparr>)
              | Some mz_match \<Rightarrow>
                  (case compute_ratio ms_quantification_mode relative_to ms_inj mz_match st of
                     Inl e \<Rightarrow> Inl e
                   | Inr st1 \<Rightarrow>
                       (case product_ratio st1 of
                          None \<Rightarrow> Inl UnboundLocalError
                        | Some ratio \<Rightarrow>
                            (case classify ratio (yield_val st1) of
                               None \<Rightarrow> Inl UnboundLocalError
                             | Some y \<Rightarrow>
                                 if mode = ''conv'' then Inl TypeError
                                 else Inr (st1\<lparr>
                                   results_dict := (results_dict st1)(pos \<mapsto>
                                     [Str y, Float (rt mz_match), Float NaN, Obj an]),
                                   yield_val := Some y,
                                   out := out st1 @
                                     [MatchReport (sample_name ms_inj) ratio (rt mz_match)
                                        (analyte mz_match)]\<rparr>)))))"

definition ms_quantify ::
  "'a ms_sequence \<Rightarrow> 'a layout \<Rightarrow> string \<Rightarrow> string \<Rightarrow> string \<Rightarrow> int \<Rightarrow> pyerror + 'a ms_state" where
  "ms_quantify ms_sequence lay mode ms_quantification_mode relative_to index =
     for_each (ms_quantify_body lay mode ms_quantification_mode relative_to index) ms_sequence
       \<lparr>results_dict = Map.empty, product_ratio = None, yield_val = None, out = []\<rparr>"

subsection \<open>Plate functions\<close>

text \<open>
  \<open>str(i)\<close> of a natural number, and \<open>chr(65 + i)\<close> (a single byte here; plates have far
  fewer than 191 rows).
\<close>

fun str_nat :: "nat \<Rightarrow> string" where
  "str_nat n =
     (if n < 10 then [char_of (48 + n)]
      else str_nat (n div 10) @ [char_of (48 + n mod 10)])"

declare str_nat.simps [simp del]

definition row_labels :: "nat \<Rightarrow> string list" where
  "row_labels n = map (\<lambda>i. [char_of (65 + i)]) [0..<n]"

definition column_labels :: "nat \<Rightarrow> string list" where
  "column_labels n = map str_nat [1..<n + 1]"

text \<open>
  Both plate functions hand the result dictionary to pandas and numpy (a data frame
  indexed by the row and column labels, \<open>to_numpy\<close>, \<open>unstructured_to_structured\<close>, and
  \<open>to_csv\<close> when a path is given). That library code is outside the repository; it is
  the parameter \<open>assemble\<close>, which receives the row labels, the column labels, the
  dictionary, the path and the name of the quantity column, and returns the structured
  array or raises.
\<close>

type_synonym ('a, 'g) assemble =
  "string list \<Rightarrow> string list \<Rightarrow> 'a results \<Rightarrow> string option \<Rightarrow> string \<Rightarrow> pyerror + 'g"

definition match_and_quantify_plate ::
  "('a, 'g) assemble \<Rightarrow> 'a ms_sequence \<Rightarrow> 'a fid_sequence \<Rightarrow> 'a layout \<Rightarrow> string option \<Rightarrow>
   string \<Rightarrow> int \<Rightarrow> pyerror + 'g" where
  "match_and_quantify_plate assemble ms_sequence fid_sequence lay path mode index =
     (case match_and_quantify ms_sequence fid_sequence lay mode index of
        Inl e \<Rightarrow> Inl e
      | Inr results \<Rightarrow>
          assemble (row_labels 8) (column_labels 12) results path
            (if mode = ''yield'' then ''Yield [%]'' else ''Conversion [%]''))"

definition calc_plate_yield ::
  "('a, 'g) assemble \<Rightarrow> 'a ms_sequence \<Rightarrow> 'a fid_sequence \<Rightarrow> 'a layout \<Rightarrow> string option \<Rightarrow>
   pyerror + 'g" where
  "calc_plate_yield assemble ms_sequence fid_sequence lay path =
     match_and_quantify_plate assemble ms_sequence fid_sequence lay path ''yield'' 0"

definition calc_plate_conv ::
  "('a, 'g) assemble \<Rightarrow> 'a ms_sequence \<Rightarrow> 'a fid_sequence \<Rightarrow> 'a layout \<Rightarrow> string option \<Rightarrow>
   int \<Rightarrow> pyerror + 'g" where
  "calc_plate_conv assemble ms_sequence fid_sequence lay path index =
     match_and_quantify_plate assemble ms_sequence fid_sequence lay path ''conv'' index"

text \<open>The MS-only plate function also returns what the loop printed.\<close>

definition ms_only_quantify_plate ::
  "('a, 'g) assemble \<Rightarrow> 'a ms_sequence \<Rightarrow> 'a layout \<Rightarrow> string option \<Rightarrow> string \<Rightarrow> int \<Rightarrow>
   string \<Rightarrow> string \<Rightarrow> pyerror + 'g \<times> 'a diag list" where
  "ms_only_quantify_plate assemble ms_sequence lay path mode index ms_quantification_mode
     relative_to =
     (let rows = row_labels (fst (shape lay));
          columns = column_labels (snd (shape lay))
      in case ms_quantify ms_sequence lay mode ms_quantification_mode relative_to index of
           Inl e \<Rightarrow> Inl e
         | Inr st \<Rightarrow>
             (case assemble rows columns (results_dict st) path
                     (if mode = ''yield'' then ''MS Yield Estimate''
                      else ''MS Conversion Estimate'') of
                Inl e \<Rightarrow> Inl e
              | Inr grid \<Rightarrow> Inr (grid, out st)))"

definition calc_plate_ms_only_yield ::
  "('a, 'g) assemble \<Rightarrow> 'a ms_sequence \<Rightarrow> 'a layout \<Rightarrow> string option \<Rightarrow>
   pyerror + 'g \<times> 'a diag list" where
  "calc_plate_ms_only_yield assemble ms_sequence lay path =
     ms_only_quantify_plate assemble ms_sequence lay path ''yield'' 0 ''area'' ''standard''"

section \<open>Peak detection in MS chromatograms (peak_detection_ms.py)\<close>

subsection \<open>Data\<close>

text \<open>
  A chromatogram is a numpy array of two rows of equal length, the times and the
  intensities: a list of samples. The samples are finite, so they are real numbers.
\<close>

type_synonym chromatogram = "(real \<times> real) list"

definition time_values :: "chromatogram \<Rightarrow> real list" where
  "time_values chromatogram = map fst chromatogram"

definition intensities :: "chromatogram \<Rightarrow> real list" where
  "intensities chromatogram = map snd chromatogram"

text \<open>
  The mass traces: a data frame whose index holds the scan times in milliseconds and
  whose columns, labelled by mass, hold one intensity per scan.
\<close>

record scans =
  scan_index :: "real list"
  scan_columns :: "(real \<times> real list) list"

text \<open>
  The settings: a store read with \<open>pop(key, default)\<close>, which removes the key it
  finds, and the attribute \<open>scan_rate\<close>.
\<close>

record analysis_settings =
  store :: "string \<rightharpoonup> real"
  scan_rate :: real

definition pop :: "string \<Rightarrow> real \<Rightarrow> analysis_settings \<Rightarrow> real \<times> analysis_settings" where
  "pop key dflt s =
     (case store s key of
        None \<Rightarrow> (dflt, s)
      | Some v \<Rightarrow> (v, s\<lparr>store := (store s)(key := None)\<rparr>))"

text \<open>
  \<open>scipy.signal.find\_peaks\<close> is library code: it is a parameter of the model, a function
  from the signal and the keyword arguments to the peak indices and the properties the
  code reads. The code never passes \<open>rel_height\<close> to the call of line 102; the library
  default is 0.5.
\<close>

record fp_args =
  fp_prominence :: pyfloat
  fp_width :: "real option"
  fp_height :: "real option"
  fp_rel_height :: real

record fp_result =
  fp_indices :: "nat list"
  fp_peak_heights :: "real list"
  fp_widths :: "real list"
  fp_left_ips :: "real list"
  fp_right_ips :: "real list"

type_synonym find_peaks = "real list \<Rightarrow> fp_args \<Rightarrow> fp_result"

text \<open>
  \<open>Utilities.check_interval\<close> is not among the source files either; it is the second
  parameter. The specification describes \<open>check_interval(index, peak_index, 5)\<close> as
  "within a tolerance window of plus or minus 5 samples".
\<close>

type_synonym check_interval = "nat \<Rightarrow> nat \<Rightarrow> nat \<Rightarrow> bool"

text \<open>
  Modelled from the spec: \<open>Utilities.check_interval\<close>, which the source files do not
  contain, read as the closed window.
\<close>

definition within_tolerance :: check_interval where
  "within_tolerance index peak_index tol =
     (index \<le> peak_index + tol \<and> peak_index \<le> index + tol)"

text \<open>What the constructor \<open>MS_Peak(rt, height, width, boarders, mass_spectrum, area)\<close> is given.\<close>

record ms_peak =
  ms_rt :: real
  ms_height :: real
  ms_width :: real
  ms_boarders :: "real \<times> real"
  ms_mass_spectrum :: "(real \<times> real \<times> pyfloat) list"   \<comment> \<open>\<open>(mz, intensity, rel_intensity)\<close>\<close>
  ms_area :: real

subsection \<open>Numerical helpers of numpy and scipy\<close>

text \<open>\<open>np.argmin\<close>: the first index of the least element; an empty array raises.\<close>

fun argmin_aux :: "real list \<Rightarrow> nat \<Rightarrow> nat \<Rightarrow> real \<Rightarrow> nat" where
  "argmin_aux [] i best v = best"
| "argmin_aux (x # xs) i best v =
     (if x < v then argmin_aux xs (Suc i) i x else argmin_aux xs (Suc i) best v)"

definition argmin :: "real list \<Rightarrow> pyerror + nat" where
  "argmin xs = (case xs of [] \<Rightarrow> Inl ValueError | x # rest \<Rightarrow> Inr (argmin_aux rest 1 0 x))"

text \<open>\<open>np.min\<close> and \<open>np.max\<close>: an empty array raises.\<close>

definition np_min :: "real list \<Rightarrow> pyerror + real" where
  "np_min xs = (case xs of [] \<Rightarrow> Inl ValueError | x # rest \<Rightarrow> Inr (fold min rest x))"

definition np_max :: "real list \<Rightarrow> pyerror + real" where
  "np_max xs = (case xs of [] \<Rightarrow> Inl ValueError | x # rest \<Rightarrow> Inr (fold max rest x))"

text \<open>\<open>np.median\<close> of a non-empty array (of an empty one it is not-a-number).\<close>

definition np_median :: "real list \<Rightarrow> pyfloat" where
  "np_median xs =
     (let s = sort xs; n = length s
      in if n = 0 then NaN
         else if odd n then Fin (s ! (n div 2))
         else Fin ((s ! (n div 2 - 1) + s ! (n div 2)) / 2))"

text \<open>
  \<open>round(rt, 3)\<close> on a numpy float: the value times 1000 is rounded to the nearest
  integer, a tie to the even one, and divided by 1000.
\<close>

definition round_half_even :: "real \<Rightarrow> int" where
  "round_half_even y =
     (let f = \<lfloor>y\<rfloor>; d = y - of_int f
      in if d < 1 / 2 then f
         else if 1 / 2 < d then f + 1
         else if even f then f else f + 1)"

definition round3 :: "real \<Rightarrow> real" where
  "round3 x = of_int (round_half_even (x * 1000)) / 1000"

text \<open>
  \<open>scipy.integrate.simpson(y)\<close> with its defaults (no sample points, \<open>dx = 1\<close>), as
  documented since scipy 1.11. \<open>basic_simpson\<close> adds \<open>y0 + 4 y1 + y2\<close> over the
  consecutive pairs of intervals. An odd number of samples is composite Simpson's rule;
  an even number takes the rule on all but the last interval and a corrected parabola
  on the last one; two samples are a trapezoid; one sample integrates to 0; an empty
  array fails on its last element.
\<close>

fun basic_simpson :: "real list \<Rightarrow> real" where
  "basic_simpson (a # b # c # ys) = (a + 4 * b + c) + basic_simpson (c # ys)"
| "basic_simpson ys = 0"

definition simpson :: "real list \<Rightarrow> pyerror + real" where
  "simpson y =
     (let n = length y
      in if n = 0 then Inl IndexError
         else if even n then
           (if n = 2 then Inr (1 / 2 * (y ! 1 + y ! 0))
            else Inr (basic_simpson y * (1 / 3) +
                      (5 / 12 * y ! (n - 1) + 2 / 3 * y ! (n - 2) - 1 / 12 * y ! (n - 3))))
         else Inr (basic_simpson y * (1 / 3)))"

subsection \<open>Areas\<close>

text \<open>Lines 161 and 162: the index of the sample whose time is nearest to \<open>t\<close>.\<close>

definition nearest_index :: "real list \<Rightarrow> real \<Rightarrow> pyerror + nat" where
  "nearest_index ts t = argmin (map (\<lambda>x. \<bar>x - t\<bar>) ts)"

text \<open>Line 163: the slice \<open>y[start_idx:end_idx]\<close>.\<close>

definition slice :: "'a list \<Rightarrow> nat \<Rightarrow> nat \<Rightarrow> 'a list" where
  "slice y start_idx end_idx = drop start_idx (take end_idx y)"

definition peak_area :: "chromatogram \<Rightarrow> real \<times> real \<Rightarrow> pyerror + real" where
  "peak_area chromatogram boarder =
     (case nearest_index (time_values chromatogram) (fst boarder) of
        Inl e \<Rightarrow> Inl e
      | Inr start_idx \<Rightarrow>
          (case nearest_index (time_values chromatogram) (snd boarder) of
             Inl e \<Rightarrow> Inl e
           | Inr end_idx \<Rightarrow> simpson (slice (intensities chromatogram) start_idx end_idx)))"

fun calculate_areas :: "chromatogram \<Rightarrow> (real \<times> real) list \<Rightarrow> pyerror + real list" where
  "calculate_areas chromatogram [] = Inr []"
| "calculate_areas chromatogram (boarder # boarders) =
     (case peak_area chromatogram boarder of
        Inl e \<Rightarrow> Inl e
      | Inr a \<Rightarrow>
          (case calculate_areas chromatogram boarders of
             Inl e \<Rightarrow> Inl e
           | Inr areas \<Rightarrow> Inr (a # areas)))"

subsection \<open>Detection of the primary peaks\<close>

text \<open>\<open>a[i]\<close> on an array or a list: an index past the end raises.\<close>

definition getitem :: "'a list \<Rightarrow> nat \<Rightarrow> pyerror + 'a" where
  "getitem xs i = (if i < length xs then Inr (xs ! i) else Inl IndexError)"

text \<open>\<open>time[peak_indices]\<close>: every index must be in range.\<close>

fun take_at :: "'a list \<Rightarrow> nat list \<Rightarrow> pyerror + 'a list" where
  "take_at xs [] = Inr []"
| "take_at xs (i # is) =
     (case getitem xs i of
        Inl e \<Rightarrow> Inl e
      | Inr v \<Rightarrow> (case take_at xs is of Inl e \<Rightarrow> Inl e | Inr vs \<Rightarrow> Inr (v # vs)))"

record detected =
  peak_indices :: "nat list"
  peak_rts :: "real list"
  peak_heights :: "real list"
  peak_widths :: "real list"
  peak_boarders :: "(real \<times> real) list"
  peak_areas :: "real list"

text \<open>
  \<open>__detect_peaks_scipy\<close> (lines 57 to 76). The default of \<open>height\<close> is computed before
  \<open>pop\<close> is called, so a signal without a positive intensity raises whatever the
  settings hold. \<open>np.vstack\<close> raises when the two border arrays differ in length. The
  prominence is the product of the median and the setting.
\<close>

definition detect_peaks_scipy ::
  "find_peaks \<Rightarrow> chromatogram \<Rightarrow> analysis_settings \<Rightarrow> pyerror + detected \<times> analysis_settings" where
  "detect_peaks_scipy find_peaks chromatogram s0 =
     (let time = time_values chromatogram;
          ints = intensities chromatogram
      in case np_min (filter (\<lambda>x. 0 < x) ints) of
           Inl e \<Rightarrow> Inl e
         | Inr least \<Rightarrow>
             (let (min_height, s1) = pop ''height'' (least * 50) s0;
                  (prominence0, s2) = pop ''prominence_ms'' 1 s1;
                  prominence = fmul (np_median ints) (Fin prominence0);
                  (width, s3) = pop ''width'' 0 s2;
                  found = find_peaks ints
                    \<lparr>fp_prominence = prominence, fp_width = Some width,
                     fp_height = Some min_height, fp_rel_height = 1\<rparr>;
                  widths = map (\<lambda>w. w * scan_rate s3) (fp_widths found)
              in if length (fp_left_ips found) \<noteq> length (fp_right_ips found)
                 then Inl ValueError
                 else
                   (case getitem time 0 of
                      Inl e \<Rightarrow> Inl e
                    | Inr t0 \<Rightarrow>
                        (let boarders = map (\<lambda>(l, r). (l * scan_rate s3 + t0,
                                                       r * scan_rate s3 + t0))
                                          (zip (fp_left_ips found) (fp_right_ips found))
                         in case calculate_areas chromatogram boarders of
                              Inl e \<Rightarrow> Inl e
                            | Inr areas \<Rightarrow>
                                (case take_at time (fp_indices found) of
                                   Inl e \<Rightarrow> Inl e
                                 | Inr rts \<Rightarrow>
                                     Inr (\<lparr>peak_indices = fp_indices found, peak_rts = rts,
                                           peak_heights = fp_peak_heights found,
                                           peak_widths = widths, peak_boarders = boarders,
                                           peak_areas = areas\<rparr>, s3))))))"

subsection \<open>Mass spectra\<close>

text \<open>
  A spectrum is a Python dictionary from mass to intensity; its order shows in the peak's
  spectrum array, so it is an association list, and \<open>dict.update\<close> of one key is
  \<open>AList.update\<close> (an existing key keeps its place). The spectra are keyed by retention
  time.
\<close>

type_synonym spectrum = "(real \<times> real) list"

type_synonym spectra = "real \<rightharpoonup> spectrum"

text \<open>
  Line 106, for one primary peak and one channel: \<open>rts[peak_index]\<close>, the lookup of the
  spectrum under that key, \<open>chromatogram[peak_index]\<close>, and the update, in this order.
\<close>

definition record_intensity ::
  "real list \<Rightarrow> real \<Rightarrow> real list \<Rightarrow> nat \<Rightarrow> spectra \<Rightarrow> pyerror + spectra" where
  "record_intensity rts mass_trace chromatogram peak_index mass_spectrums =
     (case getitem rts peak_index of
        Inl e \<Rightarrow> Inl e
      | Inr key \<Rightarrow>
          (case mass_spectrums key of
             None \<Rightarrow> Inl KeyError
           | Some sp \<Rightarrow>
               (case getitem chromatogram peak_index of
                  Inl e \<Rightarrow> Inl e
                | Inr v \<Rightarrow> Inr (mass_spectrums(key \<mapsto> AList.update mass_trace v sp)))))"

text \<open>Lines 104 to 106: the loop over the channel's own peaks.\<close>

definition index_body ::
  "check_interval \<Rightarrow> real list \<Rightarrow> real \<Rightarrow> real list \<Rightarrow> nat \<Rightarrow> spectra \<Rightarrow> nat \<Rightarrow>
   pyerror + spectra" where
  "index_body check_interval rts mass_trace chromatogram peak_index mass_spectrums index =
     (if check_interval index peak_index 5
      then record_intensity rts mass_trace chromatogram peak_index mass_spectrums
      else Inr mass_spectrums)"

text \<open>Lines 103 to 106: the loop over the primary peaks.\<close>

definition peak_index_body ::
  "check_interval \<Rightarrow> real list \<Rightarrow> real \<Rightarrow> real list \<Rightarrow> nat list \<Rightarrow> spectra \<Rightarrow> nat \<Rightarrow>
   pyerror + spectra" where
  "peak_index_body check_interval rts mass_trace chromatogram indices mass_spectrums peak_index =
     for_each (index_body check_interval rts mass_trace chromatogram peak_index) indices
       mass_spectrums"

text \<open>Lines 99 to 106: the loop over the channels.\<close>

definition mass_trace_body ::
  "find_peaks \<Rightarrow> check_interval \<Rightarrow> scans \<Rightarrow> nat list \<Rightarrow> real \<Rightarrow> spectra \<Rightarrow>
   real \<times> real list \<Rightarrow> pyerror + spectra" where
  "mass_trace_body find_peaks check_interval scans pk_indices prominence mass_spectrums column =
     (let mass_trace = fst column;
          rts = map (\<lambda>t. t / 60000) (scan_index scans);
          chromatogram = snd column;
          indices = fp_indices (find_peaks chromatogram
            \<lparr>fp_prominence = Fin prominence, fp_width = None, fp_height = None,
             fp_rel_height = 1 / 2\<rparr>)
      in for_each (peak_index_body check_interval rts mass_trace chromatogram indices)
           pk_indices mass_spectrums)"

text \<open>Lines 96 to 98: an empty spectrum for every retention time.\<close>

definition empty_spectra :: "real list \<Rightarrow> spectra" where
  "empty_spectra rts = fold (\<lambda>i m. m(i \<mapsto> [])) rts Map.empty"

definition extract_mass_spectrum ::
  "find_peaks \<Rightarrow> check_interval \<Rightarrow> scans \<Rightarrow> real list \<Rightarrow> nat list \<Rightarrow> analysis_settings \<Rightarrow>
   pyerror + spectra \<times> analysis_settings" where
  "extract_mass_spectrum find_peaks check_interval scans pk_rts pk_indices s0 =
     (let (prominence, s1) = pop ''trace_prominence'' 220 s0
      in case for_each (mass_trace_body find_peaks check_interval scans pk_indices prominence)
                (scan_columns scans) (empty_spectra pk_rts) of
           Inl e \<Rightarrow> Inl e
         | Inr mass_spectrums \<Rightarrow> Inr (mass_spectrums, s1))"

subsection \<open>Construction of the peaks\<close>

text \<open>
  Lines 132 to 139 for the peak number \<open>i\<close>: the area, the spectrum of the retention
  time, the greatest intensity (which raises on an empty spectrum), the relative
  intensities, and the remaining constructor arguments, in this order.
\<close>

definition make_peak ::
  "real list \<Rightarrow> real list \<Rightarrow> (real \<times> real) list \<Rightarrow> spectra \<Rightarrow> real list \<Rightarrow> nat \<Rightarrow> real \<Rightarrow>
   pyerror + ms_peak" where
  "make_peak heights widths boarders mass_spectra areas i r =
     (let rt_min = round3 r
      in case getitem areas i of
           Inl e \<Rightarrow> Inl e
         | Inr a \<Rightarrow>
             (case mass_spectra r of
                None \<Rightarrow> Inl KeyError
              | Some sp \<Rightarrow>
                  (let ints = map snd sp
                   in case np_max ints of
                        Inl e \<Rightarrow> Inl e
                      | Inr greatest \<Rightarrow>
                          (let rel_intensities =
                                 map (\<lambda>x. fmul (fdiv (Fin x) (Fin greatest)) (Fin 100)) ints;
                               l = map (\<lambda>((m, x), k). (m, x, k)) (zip sp rel_intensities)
                           in case getitem heights i of
                                Inl e \<Rightarrow> Inl e
                              | Inr h \<Rightarrow>
                                  (case getitem widths i of
                                     Inl e \<Rightarrow> Inl e
                                   | Inr w \<Rightarrow>
                                       (case getitem boarders i of
                                          Inl e \<Rightarrow> Inl e
                                        | Inr b \<Rightarrow>
                                            Inr \<lparr>ms_rt = rt_min, ms_height = h, ms_width = w,
                                                 ms_boarders = b, ms_mass_spectrum = l,
                                                 ms_area = a\<rparr>))))))"

text \<open>
  The loop of \<open>__initialize_peaks\<close>; the peaks are a dictionary keyed by \<open>peak.rt\<close>, the
  rounded retention time, kept as an association list in insertion order.
\<close>

type_synonym peaks_dict = "(real \<times> ms_peak) list"

definition initialize_body ::
  "real list \<Rightarrow> real list \<Rightarrow> (real \<times> real) list \<Rightarrow> spectra \<Rightarrow> real list \<Rightarrow> peaks_dict \<Rightarrow>
   nat \<times> real \<Rightarrow> pyerror + peaks_dict" where
  "initialize_body heights widths boarders mass_spectra areas pks item =
     (case make_peak heights widths boarders mass_spectra areas (fst item) (snd item) of
        Inl e \<Rightarrow> Inl e
      | Inr p \<Rightarrow> Inr (AList.update (ms_rt p) p pks))"

definition initialize_peaks ::
  "real list \<Rightarrow> real list \<Rightarrow> real list \<Rightarrow> (real \<times> real) list \<Rightarrow> spectra \<Rightarrow> real list \<Rightarrow>
   pyerror + peaks_dict" where
  "initialize_peaks rts heights widths boarders mass_spectra areas =
     for_each (initialize_body heights widths boarders mass_spectra areas)
       (zip [0..<length rts] rts) []"

definition pick_peaks ::
  "find_peaks \<Rightarrow> check_interval \<Rightarrow> chromatogram \<Rightarrow> scans \<Rightarrow> analysis_settings \<Rightarrow>
   pyerror + peaks_dict \<times> analysis_settings" where
  "pick_peaks find_peaks check_interval chromatogram scans s0 =
     (case detect_peaks_scipy find_peaks chromatogram s0 of
        Inl e \<Rightarrow> Inl e
      | Inr (d, s1) \<Rightarrow>
          (case extract_mass_spectrum find_peaks check_interval scans (peak_rts d)
                  (peak_indices d) s1 of
             Inl e \<Rightarrow> Inl e
           | Inr (mass_spectra, s2) \<Rightarrow>
               (case initialize_peaks (peak_rts d) (peak_heights d) (peak_widths d)
                       (peak_boarders d) mass_spectra (peak_areas d) of
                  Inl e \<Rightarrow> Inl e
                | Inr pks \<Rightarrow> Inr (pks, s2))))"

subsection \<open>Concrete inputs\<close>

text \<open>Small inputs, with strings as analytes, at which the theorems below are instantiated.\<close>

definition ex_peak :: "string \<Rightarrow> string peak" where
  "ex_peak a = \<lparr>rt = Fin 3.2, ri = Fin 1200, height = Fin 1000, area = Fin 5000,
                flag = None, analyte = a\<rparr>"

definition ex_std_peak :: "string peak" where
  "ex_std_peak = \<lparr>rt = Fin 5, ri = Fin 1500, height = Fin 2000, area = Fin 6250,
                  flag = Some ''standard'', analyte = ''standard''\<rparr>"

definition ex_fid_peak :: "string peak" where
  "ex_fid_peak = \<lparr>rt = Fin 3.3, ri = Fin 1200, height = Fin 40, area = Fin 90,
                  flag = None, analyte = ''product''\<rparr>"

definition ex_inj :: "string \<Rightarrow> string \<Rightarrow> string peak list \<Rightarrow> string ms_injection" where
  "ex_inj name pos pks =
     \<lparr>sample_name = name, get_plate_position = pos, peaks = pks,
      match_mol = (\<lambda>a. if a = ''absent'' then None else Some (ex_peak a))\<rparr>"

definition ex_fid :: "string fid_sequence" where
  "ex_fid = (\<lambda>name. \<lparr>match_ri = (\<lambda>r a. if a = ''unconfirmed'' then None else Some ex_fid_peak),
                      quantify = (\<lambda>t. Fin 82.5)\<rparr>)"

definition ex_layout :: "string \<Rightarrow> string \<Rightarrow> string layout" where
  "ex_layout p s = \<lparr>get_product = (\<lambda>pos. p), get_substrate = (\<lambda>pos i. s), shape = (8, 12)\<rparr>"

text \<open>
  A chromatogram of five scans, 0.0001 minutes apart, with maxima at the scans 1 and 3,
  and two mass traces. \<open>ex_find_peaks\<close> stands for the library function on these three
  signals: it returns the two maxima of the chromatogram with their heights, widths and
  base intersections, and the maxima of each trace. The retention times 1.0001 and 1.0003
  both round to 1.0.
\<close>

definition ex_chromatogram :: chromatogram where
  "ex_chromatogram = [(1, 10), (1.0001, 100), (1.0002, 10), (1.0003, 120), (1.0004, 10)]"

definition ex_scans :: scans where
  "ex_scans = \<lparr>scan_index = [60000, 60006, 60012, 60018, 60024],
               scan_columns = [(50, [0, 300, 0, 300, 0]), (77, [0, 0, 0, 500, 0])]\<rparr>"

definition ex_settings :: analysis_settings where
  "ex_settings = \<lparr>store = [''height'' \<mapsto> 50], scan_rate = 0.0001\<rparr>"

definition ex_find_peaks :: find_peaks where
  "ex_find_peaks y args =
     (if y = [10, 100, 10, 120, 10] then
        \<lparr>fp_indices = [1, 3], fp_peak_heights = [100, 120], fp_widths = [2, 2],
         fp_left_ips = [0, 2], fp_right_ips = [2, 4]\<rparr>
      else if y = [0, 300, 0, 300, 0] then
        \<lparr>fp_indices = [1, 3], fp_peak_heights = [], fp_widths = [],
         fp_left_ips = [], fp_right_ips = []\<rparr>
      else if y = [0, 0, 0, 500, 0] then
        \<lparr>fp_indices = [3], fp_peak_heights = [], fp_widths = [],
         fp_left_ips = [], fp_right_ips = []\<rparr>
      else
        \<lparr>fp_indices = [], fp_peak_heights = [], fp_widths = [],
         fp_left_ips = [], fp_right_ips = []\<rparr>)"

definition ex_ms_peak :: ms_peak where
  "ex_ms_peak = \<lparr>ms_rt = 1, ms_height = 120, ms_width = 0.0002,
                 ms_boarders = (1.0002, 1.0004),
                 ms_mass_spectrum = [(50, 300, Fin 60), (77, 500, Fin 100)],
                 ms_area = 65\<rparr>"

text \<open>The same chromatogram with a single flat mass trace, on which no maximum is found.\<close>

definition ex_scans_flat :: scans where
  "ex_scans_flat = \<lparr>scan_index = [60000, 60006, 60012, 60018, 60024],
                    scan_columns = [(50, [5, 5, 5, 5, 5])]\<rparr>"

subsection \<open>Changes of the input used to state independence\<close>

text \<open>
  Two changes of an MS injection, not part of the program: every peak the injection holds
  or returns from \<open>match_mol\<close> gets a new height, and every peak of the injection's
  collection that is not flagged as the standard gets a new area.
\<close>

definition set_heights :: "('a peak \<Rightarrow> pyfloat) \<Rightarrow> 'a ms_injection \<Rightarrow> 'a ms_injection" where
  "set_heights h ms_inj =
     ms_inj\<lparr>peaks := map (\<lambda>p. p\<lparr>height := h p\<rparr>) (peaks ms_inj),
            match_mol := (\<lambda>a. map_option (\<lambda>p. p\<lparr>height := h p\<rparr>) (match_mol ms_inj a))\<rparr>"

definition set_other_areas :: "('a peak \<Rightarrow> pyfloat) \<Rightarrow> 'a ms_injection \<Rightarrow> 'a ms_injection" where
  "set_other_areas g ms_inj =
     ms_inj\<lparr>peaks := map (\<lambda>p. if flag p = Some ''standard'' then p else p\<lparr>area := g p\<rparr>)
                         (peaks ms_inj)\<rparr>"

subsection \<open>The area as the specification words it\<close>

text \<open>
  Not part of the program: the reading of "the composite-Simpson integral of the intensity
  between the left and right border times, over the range given by the nearest sample
  indices", to compare \<open>peak_area\<close> with. The rule is applied to the samples from the one
  nearest to the left border up to and including the one nearest to the right border, and
  the result is in time units: it is scaled by the sample spacing of that range (signals
  are uniformly spaced).
\<close>

definition claimed_area :: "chromatogram \<Rightarrow> real \<times> real \<Rightarrow> pyerror + real" where
  "claimed_area chromatogram boarder =
     (case nearest_index (time_values chromatogram) (fst boarder) of
        Inl e \<Rightarrow> Inl e
      | Inr start_idx \<Rightarrow>
          (case nearest_index (time_values chromatogram) (snd boarder) of
             Inl e \<Rightarrow> Inl e
           | Inr end_idx \<Rightarrow>
               (case simpson (slice (intensities chromatogram) start_idx (end_idx + 1)) of
                  Inl e \<Rightarrow> Inl e
                | Inr v \<Rightarrow>
                    Inr (v * ((time_values chromatogram ! end_idx
                                - time_values chromatogram ! start_idx)
                              / real (end_idx - start_idx))))))"

subsection \<open>A predicate on spectra\<close>

text \<open>
  Not part of the program: the spectrum stored under the retention time \<open>key\<close> maps the
  channel \<open>mass_trace\<close> to the intensity \<open>v\<close>.
\<close>

definition holds_entry :: "spectra \<Rightarrow> real \<Rightarrow> real \<Rightarrow> real \<Rightarrow> bool" where
  "holds_entry m key mass_trace v =
     (case m key of None \<Rightarrow> False | Some sp \<Rightarrow> map_of sp mass_trace = Some v)"

section \<open>Properties of the orchestrator\<close>

lemma for_each_append:
  "for_each body (xs @ ys) s =
     (case for_each body xs s of Inl e \<Rightarrow> Inl e | Inr s' \<Rightarrow> for_each body ys s')"
  by (induction xs arbitrary: s) (auto split: sum.splits)

lemma match_and_quantify_body_cases:
  assumes "mode = ''yield'' \<or> mode = ''conv''"
  shows "\<exists>e. match_and_quantify_body fid_sequence lay mode index d item =
            Inr (d(get_plate_position (snd item) \<mapsto> e))"
  using assms
  by (auto simp: match_and_quantify_body_def Let_def split: option.splits)

lemma cross_loop_total:
  assumes "mode = ''yield'' \<or> mode = ''conv''"
  shows "\<exists>d'. for_each (match_and_quantify_body fid_sequence lay mode index) xs d = Inr d' \<and>
              (\<forall>p. p \<notin> get_plate_position ` snd ` set xs \<longrightarrow> d' p = d p)"
proof (induction xs arbitrary: d)
  case Nil
  then show ?case by simp
next
  case (Cons x xs)
  obtain e where e: "match_and_quantify_body fid_sequence lay mode index d x =
            Inr (d(get_plate_position (snd x) \<mapsto> e))"
    using match_and_quantify_body_cases[OF assms] by blast
  obtain d' where d': "for_each (match_and_quantify_body fid_sequence lay mode index) xs
        (d(get_plate_position (snd x) \<mapsto> e)) = Inr d'"
     "\<forall>p. p \<notin> get_plate_position ` snd ` set xs \<longrightarrow> d' p = (d(get_plate_position (snd x) \<mapsto> e)) p"
    using Cons.IH by blast
  show ?case using e d' by auto
qed

lemma cross_plate:
  assumes mode: "mode = ''yield'' \<or> mode = ''conv''"
    and seq: "ms_sequence = pre @ (name, ms_inj) # post"
    and later: "\<forall>x \<in> set post. get_plate_position (snd x) \<noteq> get_plate_position ms_inj"
    and body: "\<And>d. match_and_quantify_body fid_sequence lay mode index d (name, ms_inj) =
            Inr (d(get_plate_position ms_inj \<mapsto> e))"
  shows "\<exists>d. match_and_quantify ms_sequence fid_sequence lay mode index = Inr d \<and>
             d (get_plate_position ms_inj) = Some e"
proof -
  let ?b = "match_and_quantify_body fid_sequence lay mode index"
  obtain d1 where d1: "for_each ?b pre Map.empty = Inr d1"
    using cross_loop_total[OF mode] by blast
  obtain d2 where d2: "for_each ?b post (d1(get_plate_position ms_inj \<mapsto> e)) = Inr d2"
    "\<forall>p. p \<notin> get_plate_position ` snd ` set post \<longrightarrow> d2 p = (d1(get_plate_position ms_inj \<mapsto> e)) p"
    using cross_loop_total[OF mode] by blast
  have "get_plate_position ms_inj \<notin> get_plate_position ` snd ` set post"
    using later by auto
  then have "d2 (get_plate_position ms_inj) = Some e" using d2(2) by simp
  moreover have "match_and_quantify ms_sequence fid_sequence lay mode index = Inr d2"
    by (simp add: match_and_quantify_def seq for_each_append d1 body d2(1))
  ultimately show ?thesis by blast
qed

text \<open>
  Claim C5. Every ratio in the interval from 0 to 100 gets exactly one class:
  \<open>excellent\<close> iff it is at least 70, \<open>good\<close> iff it is in [50, 70), \<open>fair\<close> iff in
  [20, 50), \<open>poor\<close> iff in [5, 20), \<open>trace\<close> iff below 5; a boundary value belongs to
  the upper class, and the class does not depend on the previous value of \<open>yield_\<close>. In
  yield mode the loop body writes that class as the quantity of a matched well whose ratio
  was computed.
\<close>

theorem classify_partition:
  assumes "0 \<le> r" and "r \<le> 100"
  shows "(classify (Fin r) old = Some ''excellent'' \<longleftrightarrow> 70 \<le> r) \<and>
         (classify (Fin r) old = Some ''good'' \<longleftrightarrow> 50 \<le> r \<and> r < 70) \<and>
         (classify (Fin r) old = Some ''fair'' \<longleftrightarrow> 20 \<le> r \<and> r < 50) \<and>
         (classify (Fin r) old = Some ''poor'' \<longleftrightarrow> 5 \<le> r \<and> r < 20) \<and>
         (classify (Fin r) old = Some ''trace'' \<longleftrightarrow> r < 5) \<and>
         classify (Fin r) old \<in> {Some ''excellent'', Some ''good'', Some ''fair'',
            Some ''poor'', Some ''trace''} \<and>
         (match_mol ms_inj (get_product lay (get_plate_position ms_inj)) = Some mz_match \<and>
          compute_ratio qm rel ms_inj mz_match st = Inr st1 \<and>
          product_ratio st1 = Some (Fin r)
          \<longrightarrow> (\<exists>c. classify (Fin r) old = Some c \<and>
                ms_quantify_body lay ''yield'' qm rel index st (name, ms_inj) =
                  Inr (st1\<lparr>results_dict := (results_dict st1)(get_plate_position ms_inj \<mapsto>
                         [Str c, Float (rt mz_match), Float NaN,
                          Obj (get_product lay (get_plate_position ms_inj))]),
                       yield_val := Some c,
                       out := out st1 @ [MatchReport (sample_name ms_inj) (Fin r) (rt mz_match)
                                          (analyte mz_match)]\<rparr>)))"
proof -
  have c: "classify (Fin r) x = classify (Fin r) old" for x
    by (simp add: classify_def)
  have 1: "classify (Fin r) old \<in> {Some ''excellent'', Some ''good'', Some ''fair'',
            Some ''poor'', Some ''trace''}"
    by (simp add: classify_def)
  then obtain cl where cl: "classify (Fin r) old = Some cl" by auto
  have "ms_quantify_body lay ''yield'' qm rel index st (name, ms_inj) =
                  Inr (st1\<lparr>results_dict := (results_dict st1)(get_plate_position ms_inj \<mapsto>
                         [Str cl, Float (rt mz_match), Float NaN,
                          Obj (get_product lay (get_plate_position ms_inj))]),
                       yield_val := Some cl,
                       out := out st1 @ [MatchReport (sample_name ms_inj) (Fin r) (rt mz_match)
                                          (analyte mz_match)]\<rparr>)"
    if "match_mol ms_inj (get_product lay (get_plate_position ms_inj)) = Some mz_match"
      "compute_ratio qm rel ms_inj mz_match st = Inr st1" "product_ratio st1 = Some (Fin r)"
    using that c[of "yield_val st1"] cl
    by (simp add: ms_quantify_body_def Let_def)
  with cl have 2: "match_mol ms_inj (get_product lay (get_plate_position ms_inj)) = Some mz_match \<and>
          compute_ratio qm rel ms_inj mz_match st = Inr st1 \<and>
          product_ratio st1 = Some (Fin r)
          \<longrightarrow> (\<exists>c. classify (Fin r) old = Some c \<and>
                ms_quantify_body lay ''yield'' qm rel index st (name, ms_inj) =
                  Inr (st1\<lparr>results_dict := (results_dict st1)(get_plate_position ms_inj \<mapsto>
                         [Str c, Float (rt mz_match), Float NaN,
                          Obj (get_product lay (get_plate_position ms_inj))]),
                       yield_val := Some c,
                       out := out st1 @ [MatchReport (sample_name ms_inj) (Fin r) (rt mz_match)
                                          (analyte mz_match)]\<rparr>))"
    by blast
  have 3: "(classify (Fin r) old = Some ''excellent'' \<longleftrightarrow> 70 \<le> r) \<and>
         (classify (Fin r) old = Some ''good'' \<longleftrightarrow> 50 \<le> r \<and> r < 70) \<and>
         (classify (Fin r) old = Some ''fair'' \<longleftrightarrow> 20 \<le> r \<and> r < 50) \<and>
         (classify (Fin r) old = Some ''poor'' \<longleftrightarrow> 5 \<le> r \<and> r < 20) \<and>
         (classify (Fin r) old = Some ''trace'' \<longleftrightarrow> r < 5)"
    by (auto simp: classify_def)
  from 1 2 3 show ?thesis by blast
qed

lemma compute_ratio_results:
  "compute_ratio qm rel ms_inj m st = Inr st1 \<Longrightarrow> results_dict st1 = results_dict st"
  by (auto simp: compute_ratio_def split: if_splits sum.splits option.splits)

lemma ms_quantify_body_frame:
  assumes "ms_quantify_body lay mode qm rel index st item = Inr st'"
    and "p \<noteq> get_plate_position (snd item)"
  shows "results_dict st' p = results_dict st p"
  using assms
  by (auto simp: ms_quantify_body_def Let_def
      split: if_splits sum.splits option.splits dest!: compute_ratio_results)

lemma ms_loop_frame:
  assumes "for_each (ms_quantify_body lay mode qm rel index) xs st = Inr st'"
    and "p \<notin> get_plate_position ` snd ` set xs"
  shows "results_dict st' p = results_dict st p"
  using assms
proof (induction xs arbitrary: st)
  case Nil
  then show ?case by simp
next
  case (Cons x xs)
  from Cons.prems(1) obtain st1 where
    b: "ms_quantify_body lay mode qm rel index st x = Inr st1" and
    r: "for_each (ms_quantify_body lay mode qm rel index) xs st1 = Inr st'"
    by (auto split: sum.splits)
  have "results_dict st' p = results_dict st1 p"
    using Cons.IH[OF r] Cons.prems(2) by simp
  also have "\<dots> = results_dict st p"
    using ms_quantify_body_frame[OF b] Cons.prems(2) by simp
  finally show ?case .
qed

lemma ms_plate:
  assumes seq: "ms_sequence = pre @ (name, ms_inj) # post"
    and later: "\<forall>x \<in> set post. get_plate_position (snd x) \<noteq> get_plate_position ms_inj"
    and body: "\<And>st st1. ms_quantify_body lay mode qm rel index st (name, ms_inj) = Inr st1
        \<Longrightarrow> results_dict st1 (get_plate_position ms_inj) = Some e"
    and run: "ms_quantify ms_sequence lay mode qm rel index = Inr st'"
  shows "results_dict st' (get_plate_position ms_inj) = Some e"
proof -
  let ?b = "ms_quantify_body lay mode qm rel index"
  from run obtain st0 st1 where
    "?b st0 (name, ms_inj) = Inr st1" and r: "for_each ?b post st1 = Inr st'"
    by (auto simp: ms_quantify_def seq for_each_append split: sum.splits)
  then have "results_dict st1 (get_plate_position ms_inj) = Some e"
    using body by blast
  moreover have "get_plate_position ms_inj \<notin> get_plate_position ` snd ` set post"
    using later by auto
  ultimately show ?thesis using ms_loop_frame[OF r] by simp
qed

text \<open>
  Claim C1. Take a well of the MS sequence that no later injection writes again, in
  yield or in conversion mode, whose MS match and FID confirmation both succeed, and let
  \<open>q\<close> be what the FID injection quantifies at the confirmed retention time. The whole
  run returns a dictionary, and the well's entry holds \<open>100 - q\<close> in conversion mode and
  \<open>q\<close> itself in yield mode, next to the two retention times and the analyte. On finite
  values \<open>fsub\<close> is the subtraction of real numbers.
\<close>

theorem conversion_is_complement_of_yield:
  assumes mode: "mode = ''yield'' \<or> mode = ''conv''"
    and seq: "ms_sequence = pre @ (name, ms_inj) # post"
    and later: "\<forall>x \<in> set post. get_plate_position (snd x) \<noteq> get_plate_position ms_inj"
    and an: "an = (if mode = ''conv'' then get_substrate lay (get_plate_position ms_inj) index
                   else get_product lay (get_plate_position ms_inj))"
    and ms: "match_mol ms_inj an = Some mz_match"
    and fid: "match_ri (fid_sequence name) (ri mz_match) (analyte mz_match) = Some ri_match"
    and q: "q = quantify (fid_sequence name) (rt ri_match)"
  shows "(\<exists>d. match_and_quantify ms_sequence fid_sequence lay mode index = Inr d \<and>
              d (get_plate_position ms_inj) =
                Some [Float (if mode = ''conv'' then fsub (Fin 100) q else q),
                      Float (rt mz_match), Float (rt ri_match), Obj an]) \<and>
         fsub (Fin 100) (Fin x) = Fin (100 - x)"
proof -
  have "\<And>d. match_and_quantify_body fid_sequence lay mode index d (name, ms_inj) =
      Inr (d(get_plate_position ms_inj \<mapsto>
        [Float (if mode = ''conv'' then fsub (Fin 100) q else q),
         Float (rt mz_match), Float (rt ri_match), Obj an]))"
    using mode an ms fid q by (auto simp: match_and_quantify_body_def Let_def)
  from cross_plate[OF mode seq later this] show ?thesis
    by (simp add: fsub_def)
qed

text \<open>
  Claim C3. Take a well that no later injection writes again, in yield or in conversion
  mode. Cross-modality: if the MS match fails, or the MS match succeeds and the FID
  confirmation fails, the whole run returns a dictionary (it does not raise) whose entry
  for the well is \<open>[nan, nan, nan, '']\<close>. MS-only: if the MS match fails, the loop body
  returns normally from every loop state and only sets the well's entry to
  \<open>[nan, nan, nan, '']\<close>, and every run that returns holds that entry for the well.
\<close>

theorem missing_match_records_nan:
  assumes mode: "mode = ''yield'' \<or> mode = ''conv''"
    and seq: "ms_sequence = pre @ (name, ms_inj) # post"
    and later: "\<forall>x \<in> set post. get_plate_position (snd x) \<noteq> get_plate_position ms_inj"
    and an: "an = (if mode = ''conv'' then get_substrate lay (get_plate_position ms_inj) index
                   else get_product lay (get_plate_position ms_inj))"
  shows "(match_mol ms_inj an = None \<or>
          (\<exists>m. match_mol ms_inj an = Some m \<and>
               match_ri (fid_sequence name) (ri m) (analyte m) = None)
          \<longrightarrow> (\<exists>d. match_and_quantify ms_sequence fid_sequence lay mode index = Inr d \<and>
                   d (get_plate_position ms_inj) = Some [Float NaN, Float NaN, Float NaN, Str ''''])) \<and>
         (match_mol ms_inj an = None
          \<longrightarrow> ms_quantify_body lay mode qm rel index st (name, ms_inj) =
                 Inr (st\<lparr>results_dict := (results_dict st)(get_plate_position ms_inj \<mapsto> [Float NaN, Float NaN, Float NaN, Str ''''])\<rparr>) \<and>
              (\<forall>st'. ms_quantify ms_sequence lay mode qm rel index = Inr st'
                 \<longrightarrow> results_dict st' (get_plate_position ms_inj) = Some [Float NaN, Float NaN, Float NaN, Str '''']))"
proof (intro conjI impI)
  assume f: "match_mol ms_inj an = None \<or>
          (\<exists>m. match_mol ms_inj an = Some m \<and>
               match_ri (fid_sequence name) (ri m) (analyte m) = None)"
  have "\<And>d. match_and_quantify_body fid_sequence lay mode index d (name, ms_inj) =
      Inr (d(get_plate_position ms_inj \<mapsto> [Float NaN, Float NaN, Float NaN, Str '''']))"
    using mode an f by (auto simp: match_and_quantify_body_def Let_def)
  from cross_plate[OF mode seq later this]
  show "\<exists>d. match_and_quantify ms_sequence fid_sequence lay mode index = Inr d \<and>
                   d (get_plate_position ms_inj) = Some [Float NaN, Float NaN, Float NaN, Str '''']" .
next
  assume n: "match_mol ms_inj an = None"
  have b: "\<And>st. ms_quantify_body lay mode qm rel index st (name, ms_inj) =
                 Inr (st\<lparr>results_dict := (results_dict st)(get_plate_position ms_inj \<mapsto> [Float NaN, Float NaN, Float NaN, Str ''''])\<rparr>)"
    using mode an n by (auto simp: ms_quantify_body_def Let_def)
  show "ms_quantify_body lay mode qm rel index st (name, ms_inj) =
                 Inr (st\<lparr>results_dict := (results_dict st)(get_plate_position ms_inj \<mapsto> [Float NaN, Float NaN, Float NaN, Str ''''])\<rparr>)"
    by (rule b)
  show "\<forall>st'. ms_quantify ms_sequence lay mode qm rel index = Inr st'
                 \<longrightarrow> results_dict st' (get_plate_position ms_inj) = Some [Float NaN, Float NaN, Float NaN, Str '''']"
  proof (intro allI impI)
    fix st' assume r: "ms_quantify ms_sequence lay mode qm rel index = Inr st'"
    show "results_dict st' (get_plate_position ms_inj) = Some [Float NaN, Float NaN, Float NaN, Str '''']"
      by (rule ms_plate[OF seq later _ r]) (simp add: b)
  qed
qed

lemma ex_sel:
  "get_plate_position (ex_inj n p pks) = p"
  "sample_name (ex_inj n p pks) = n"
  "peaks (ex_inj n p pks) = pks"
  "match_mol (ex_inj n p pks) a = (if a = ''absent'' then None else Some (ex_peak a))"
  "rt (ex_peak a) = Fin 3.2"
  "ri (ex_peak a) = Fin 1200"
  "area (ex_peak a) = Fin 5000"
  "height (ex_peak a) = Fin 1000"
  "flag (ex_peak a) = None"
  "analyte (ex_peak a) = a"
  "rt ex_fid_peak = Fin 3.3"
  "area ex_std_peak = Fin 6250"
  "flag ex_std_peak = Some ''standard''"
  "match_ri (ex_fid n) r a = (if a = ''unconfirmed'' then None else Some ex_fid_peak)"
  "quantify (ex_fid n) t = Fin 82.5"
  "get_product (ex_layout pr su) p = pr"
  "get_substrate (ex_layout pr su) p i = su"
  by (simp_all add: ex_inj_def ex_peak_def ex_fid_peak_def ex_std_peak_def ex_fid_def
      ex_layout_def)

theorem classify_partition_witness:
  "classify (Fin 61) None = Some ''good'' \<and> classify (Fin 70) None = Some ''excellent'' \<and>
   classify (Fin 0) None = Some ''trace'' \<and> classify (Fin 100) None = Some ''excellent'' \<and>
   (\<exists>st'. ms_quantify_body (ex_layout ''product'' ''substrate'') ''yield'' ''area'' ''standard'' 0
            \<lparr>results_dict = Map.empty, product_ratio = None, yield_val = None, out = []\<rparr>
            (''S0'', ex_inj ''S0'' ''A1'' [ex_peak ''product'', ex_std_peak]) = Inr st' \<and>
          results_dict st' ''A1'' =
            Some [Str ''excellent'', Float (Fin 3.2), Float NaN, Obj ''product''])"
proof -
  let ?st = "\<lparr>results_dict = Map.empty :: string results, product_ratio = None,
              yield_val = None, out = []\<rparr>"
  let ?inj = "ex_inj ''S0'' ''A1'' [ex_peak ''product'', ex_std_peak]"
  have cr: "compute_ratio ''area'' ''standard'' ?inj (ex_peak ''product'') ?st
              = Inr (?st\<lparr>product_ratio := Some (Fin 80)\<rparr>)"
    by (simp add: compute_ratio_def getattr_peak_def ex_sel)
  have mm: "match_mol ?inj (get_product (ex_layout ''product'' ''substrate'')
              (get_plate_position ?inj)) = Some (ex_peak ''product'')"
    by (simp add: ex_sel)
  note t = classify_partition[where r = 80 and old = None and ms_inj = ?inj
      and lay = "ex_layout ''product'' ''substrate''" and mz_match = "ex_peak ''product''"
      and qm = "''area''" and rel = "''standard''" and st = ?st
      and ?st1.0 = "?st\<lparr>product_ratio := Some (Fin 80)\<rparr>" and index = 0 and name = "''S0''"]
  have b: "\<exists>st'. ms_quantify_body (ex_layout ''product'' ''substrate'') ''yield'' ''area''
            ''standard'' 0 ?st (''S0'', ?inj) = Inr st' \<and>
          results_dict st' ''A1'' =
            Some [Str ''excellent'', Float (Fin 3.2), Float NaN, Obj ''product'']"
    using t cr mm by (auto simp: ex_sel)
  have c1: "classify (Fin 61) None = Some ''good''"
    using classify_partition[where r = 61 and old = None, THEN conjunct2, THEN conjunct1]
    by simp
  have c2: "classify (Fin 70) None = Some ''excellent''"
    using classify_partition[where r = 70 and old = None, THEN conjunct1] by simp
  have c3: "classify (Fin 0) None = Some ''trace''"
    using classify_partition[where r = 0 and old = None, THEN conjunct2, THEN conjunct2,
        THEN conjunct2, THEN conjunct2, THEN conjunct1]
    by simp
  have c4: "classify (Fin 100) None = Some ''excellent''"
    using classify_partition[where r = 100 and old = None, THEN conjunct1] by simp
  from b c1 c2 c3 c4 show ?thesis by blast
qed

theorem conversion_is_complement_of_yield_witness:
  "(\<exists>d. match_and_quantify [(''S1'', ex_inj ''S1'' ''A1'' [])] ex_fid
          (ex_layout ''product'' ''substrate'') ''yield'' 0 = Inr d \<and>
        d ''A1'' = Some [Float (Fin 82.5), Float (Fin 3.2), Float (Fin 3.3), Obj ''product'']) \<and>
   (\<exists>d. match_and_quantify [(''S1'', ex_inj ''S1'' ''A1'' [])] ex_fid
          (ex_layout ''product'' ''substrate'') ''conv'' 0 = Inr d \<and>
        d ''A1'' = Some [Float (Fin 17.5), Float (Fin 3.2), Float (Fin 3.3), Obj ''substrate''])"
proof -
  let ?inj = "ex_inj ''S1'' ''A1'' []"
  have seq: "[(''S1'', ?inj)] = [] @ (''S1'', ?inj) # []" by simp
  have later: "\<forall>x \<in> set ([] :: string ms_sequence).
      get_plate_position (snd x) \<noteq> get_plate_position ?inj" by simp
  have y: "\<exists>d. match_and_quantify [(''S1'', ?inj)] ex_fid
          (ex_layout ''product'' ''substrate'') ''yield'' 0 = Inr d \<and>
        d ''A1'' = Some [Float (Fin 82.5), Float (Fin 3.2), Float (Fin 3.3), Obj ''product'']"
    using conversion_is_complement_of_yield[where mode = "''yield''" and index = 0
        and lay = "ex_layout ''product'' ''substrate''" and fid_sequence = ex_fid
        and an = "''product''" and mz_match = "ex_peak ''product''" and ri_match = ex_fid_peak
        and q = "Fin 82.5", OF _ seq later]
    by (simp add: ex_sel)
  have c: "\<exists>d. match_and_quantify [(''S1'', ?inj)] ex_fid
          (ex_layout ''product'' ''substrate'') ''conv'' 0 = Inr d \<and>
        d ''A1'' = Some [Float (Fin 17.5), Float (Fin 3.2), Float (Fin 3.3), Obj ''substrate'']"
    using conversion_is_complement_of_yield[where mode = "''conv''" and index = 0
        and lay = "ex_layout ''product'' ''substrate''" and fid_sequence = ex_fid
        and an = "''substrate''" and mz_match = "ex_peak ''substrate''" and ri_match = ex_fid_peak
        and q = "Fin 82.5" and x = "82.5", OF _ seq later]
    by (simp add: ex_sel fsub_def)
  from y c show ?thesis by blast
qed

theorem missing_match_records_nan_witness:
  "(\<exists>d. match_and_quantify [(''S1'', ex_inj ''S1'' ''A1'' [])] ex_fid
          (ex_layout ''absent'' ''substrate'') ''yield'' 0 = Inr d \<and>
        d ''A1'' = Some [Float NaN, Float NaN, Float NaN, Str '''']) \<and>
   (\<exists>d. match_and_quantify [(''S1'', ex_inj ''S1'' ''A1'' [])] ex_fid
          (ex_layout ''product'' ''unconfirmed'') ''conv'' 0 = Inr d \<and>
        d ''A1'' = Some [Float NaN, Float NaN, Float NaN, Str '''']) \<and>
   (\<exists>st. ms_quantify [(''S1'', ex_inj ''S1'' ''A1'' [])]
          (ex_layout ''absent'' ''substrate'') ''yield'' ''area'' ''standard'' 0 = Inr st \<and>
        results_dict st ''A1'' = Some [Float NaN, Float NaN, Float NaN, Str ''''])"
proof -
  let ?inj = "ex_inj ''S1'' ''A1'' []"
  have seq: "[(''S1'', ?inj)] = [] @ (''S1'', ?inj) # []" by simp
  have later: "\<forall>x \<in> set ([] :: string ms_sequence).
      get_plate_position (snd x) \<noteq> get_plate_position ?inj" by simp
  note a = missing_match_records_nan[where mode = "''yield''" and index = 0
        and lay = "ex_layout ''absent'' ''substrate''" and fid_sequence = ex_fid
        and an = "''absent''" and qm = "''area''" and rel = "''standard''"
        and st = "\<lparr>results_dict = Map.empty, product_ratio = None, yield_val = None, out = []\<rparr>",
        OF _ seq later]
  note b = missing_match_records_nan[where mode = "''conv''" and index = 0
        and lay = "ex_layout ''product'' ''unconfirmed''" and fid_sequence = ex_fid
        and an = "''unconfirmed''", OF _ seq later]
  have 1: "\<exists>d. match_and_quantify [(''S1'', ?inj)] ex_fid
          (ex_layout ''absent'' ''substrate'') ''yield'' 0 = Inr d \<and> d ''A1'' = Some [Float NaN, Float NaN, Float NaN, Str '''']"
    using a by (simp add: ex_sel)
  have 2: "\<exists>d. match_and_quantify [(''S1'', ?inj)] ex_fid
          (ex_layout ''product'' ''unconfirmed'') ''conv'' 0 = Inr d \<and> d ''A1'' = Some [Float NaN, Float NaN, Float NaN, Str '''']"
    using b by (simp add: ex_sel)
  have 3: "\<exists>st. ms_quantify [(''S1'', ?inj)]
          (ex_layout ''absent'' ''substrate'') ''yield'' ''area'' ''standard'' 0 = Inr st \<and>
        results_dict st ''A1'' = Some [Float NaN, Float NaN, Float NaN, Str '''']"
    using a by (simp add: ex_sel ms_quantify_def)
  from 1 2 3 show ?thesis by blast
qed

text \<open>
  Claim C2, at inputs where the code departs from it. MS-only quantification relative to
  the standard, yield mode, by area. First run: the only injection matches the product and
  has no peak flagged as the standard; after the notice of line 284 the classification of
  line 288 reads \<open>product_ratio\<close>, which was never bound, and the whole run raises.
  Second run: the first injection has a standard and a ratio of 80; the second has none,
  and is classified with the ratio left over from the first, so its well is written as
  \<open>excellent\<close>: it is not absent.
\<close>

theorem missing_standard_aborts_or_reuses_ratio:
  "ms_quantify [(''S1'', ex_inj ''S1'' ''A1'' [ex_peak ''product''])]
      (ex_layout ''product'' ''substrate'') ''yield'' ''area'' ''standard'' 0
     = Inl UnboundLocalError \<and>
   (\<exists>st. ms_quantify [(''S0'', ex_inj ''S0'' ''A1'' [ex_peak ''product'', ex_std_peak]),
                       (''S1'', ex_inj ''S1'' ''A2'' [ex_peak ''product''])]
      (ex_layout ''product'' ''substrate'') ''yield'' ''area'' ''standard'' 0 = Inr st \<and>
      results_dict st ''A2'' = Some [Str ''excellent'', Float (Fin 3.2), Float NaN, Obj ''product''] \<and>
      out st = [MatchReport ''S0'' (Fin 80) (Fin 3.2) ''product'',
                NoStandardFound ''S1'',
                MatchReport ''S1'' (Fin 80) (Fin 3.2) ''product''])"
  by (simp add: ms_quantify_def ms_quantify_body_def compute_ratio_def getattr_peak_def
      classify_def ex_sel Let_def)

lemma find_standard_area:
  "find_standard ''area'' pks \<noteq> Inl e"
  by (induction pks) (auto simp: getattr_peak_def)

lemma fixed_body_errors:
  "ms_quantify_body lay ''yield'' ''area'' ''standard'' index st item = Inl e
   \<Longrightarrow> e = UnboundLocalError"
  by (auto simp: ms_quantify_body_def compute_ratio_def getattr_peak_def Let_def
        find_standard_area
      split: if_splits sum.splits option.splits)

lemma fixed_loop_errors:
  "for_each (ms_quantify_body lay ''yield'' ''area'' ''standard'' index) xs s = Inl e
   \<Longrightarrow> e = UnboundLocalError"
  by (induction xs arbitrary: s) (auto split: sum.splits dest: fixed_body_errors)

lemma find_standard_heights:
  "find_standard ''area'' (map (\<lambda>p. p\<lparr>height := h p\<rparr>) pks) = find_standard ''area'' pks"
  by (induction pks) (auto simp: getattr_peak_def)

lemma find_standard_other_areas:
  "find_standard ''area''
     (map (\<lambda>p. if flag p = Some ''standard'' then p else p\<lparr>area := g p\<rparr>) pks)
   = find_standard ''area'' pks"
  by (induction pks) (auto simp: getattr_peak_def)

lemma fixed_body_heights:
  "ms_quantify_body lay ''yield'' ''area'' ''standard'' index st (n, set_heights h ms_inj)
   = ms_quantify_body lay ''yield'' ''area'' ''standard'' index st (n, ms_inj)"
  by (auto simp: ms_quantify_body_def compute_ratio_def getattr_peak_def Let_def
        find_standard_heights set_heights_def
      split: if_splits sum.splits option.splits)

lemma fixed_body_other_areas:
  "ms_quantify_body lay ''yield'' ''area'' ''standard'' index st (n, set_other_areas g ms_inj)
   = ms_quantify_body lay ''yield'' ''area'' ''standard'' index st (n, ms_inj)"
  by (auto simp: ms_quantify_body_def compute_ratio_def getattr_peak_def Let_def
        find_standard_other_areas set_other_areas_def
      split: if_splits sum.splits option.splits)

lemma for_each_map:
  assumes "\<And>s x. body s (f x) = body s x"
  shows "for_each body (map f xs) s = for_each body xs s"
  by (induction xs arbitrary: s) (auto simp: assms split: sum.splits)

text \<open>
  Claim C10. \<open>calc_plate_ms_only_yield\<close> is the MS-only plate function at mode \<open>yield\<close>,
  index 0, quantification by \<open>area\<close>, relative to the \<open>standard\<close>, for every input.
  The other branches are out of reach: the run never ends in the type error of the
  conversion complement, the value error of an unknown mode or an attribute error; its
  result does not depend on any peak height (the height branch), nor on the area of any
  peak of an injection that is not flagged as the standard (the sum over all peaks).
\<close>

theorem calc_plate_ms_only_yield_fixed:
  "calc_plate_ms_only_yield assemble ms_sequence lay path =
     ms_only_quantify_plate assemble ms_sequence lay path ''yield'' 0 ''area'' ''standard'' \<and>
   ms_quantify ms_sequence lay ''yield'' ''area'' ''standard'' 0 \<noteq> Inl TypeError \<and>
   ms_quantify ms_sequence lay ''yield'' ''area'' ''standard'' 0 \<noteq> Inl ValueError \<and>
   ms_quantify ms_sequence lay ''yield'' ''area'' ''standard'' 0 \<noteq> Inl AttributeError \<and>
   calc_plate_ms_only_yield assemble (map (\<lambda>(n, i). (n, set_heights h i)) ms_sequence) lay path =
     calc_plate_ms_only_yield assemble ms_sequence lay path \<and>
   calc_plate_ms_only_yield assemble (map (\<lambda>(n, i). (n, set_other_areas g i)) ms_sequence) lay path =
     calc_plate_ms_only_yield assemble ms_sequence lay path"
proof -
  let ?b = "ms_quantify_body lay ''yield'' ''area'' ''standard'' 0"
  have e: "e = UnboundLocalError"
    if "ms_quantify ms_sequence lay ''yield'' ''area'' ''standard'' 0 = Inl e" for e
    using fixed_loop_errors that unfolding ms_quantify_def by blast
  have h: "ms_quantify (map (\<lambda>(n, i). (n, set_heights h i)) ms_sequence) lay
              ''yield'' ''area'' ''standard'' 0
           = ms_quantify ms_sequence lay ''yield'' ''area'' ''standard'' 0"
    unfolding ms_quantify_def
    by (rule for_each_map) (auto simp: fixed_body_heights split: prod.splits)
  have g: "ms_quantify (map (\<lambda>(n, i). (n, set_other_areas g i)) ms_sequence) lay
              ''yield'' ''area'' ''standard'' 0
           = ms_quantify ms_sequence lay ''yield'' ''area'' ''standard'' 0"
    unfolding ms_quantify_def
    by (rule for_each_map) (auto simp: fixed_body_other_areas split: prod.splits)
  show ?thesis
    using e
    by (auto simp: calc_plate_ms_only_yield_def ms_only_quantify_plate_def h g)
qed

section \<open>Properties of the peak detection\<close>

subsection \<open>Nearest samples and Simpson's rule\<close>

lemma argmin_aux_spec:
  "(argmin_aux xs i best v = best \<and> (\<forall>x \<in> set xs. v \<le> x)) \<or>
   (\<exists>j < length xs. argmin_aux xs i best v = i + j \<and> xs ! j < v \<and>
        (\<forall>m < length xs. xs ! j \<le> xs ! m) \<and> (\<forall>m < j. xs ! j < xs ! m))"
proof (induction xs arbitrary: i best v)
  case Nil
  then show ?case by simp
next
  case (Cons x xs)
  show ?case
  proof (cases "x < v")
    case True
    from Cons.IH[of "Suc i" i x] show ?thesis
    proof
      assume a: "argmin_aux xs (Suc i) i x = i \<and> (\<forall>y \<in> set xs. x \<le> y)"
      have "\<forall>m < length (x # xs). (x # xs) ! 0 \<le> (x # xs) ! m"
        using a by (auto simp: nth_Cons split: nat.splits)
      then show ?thesis using True a
        by (intro disjI2 exI[of _ 0]) simp
    next
      assume "\<exists>j<length xs. argmin_aux xs (Suc i) i x = Suc i + j \<and> xs ! j < x \<and>
        (\<forall>m<length xs. xs ! j \<le> xs ! m) \<and> (\<forall>m<j. xs ! j < xs ! m)"
      then obtain j where j: "j < length xs" "argmin_aux xs (Suc i) i x = Suc i + j"
        "xs ! j < x" "\<forall>m<length xs. xs ! j \<le> xs ! m" "\<forall>m<j. xs ! j < xs ! m"
        by blast
      have 1: "\<forall>m < length (x # xs). (x # xs) ! Suc j \<le> (x # xs) ! m"
        using j by (auto simp: nth_Cons split: nat.splits)
      have 2: "\<forall>m < Suc j. (x # xs) ! Suc j < (x # xs) ! m"
        using j by (auto simp: nth_Cons split: nat.splits)
      show ?thesis using True j 1 2
        by (intro disjI2 exI[of _ "Suc j"]) simp
    qed
  next
    case False
    from Cons.IH[of "Suc i" best v] show ?thesis
    proof
      assume a: "argmin_aux xs (Suc i) best v = best \<and> (\<forall>y \<in> set xs. v \<le> y)"
      then show ?thesis using False by simp
    next
      assume "\<exists>j<length xs. argmin_aux xs (Suc i) best v = Suc i + j \<and> xs ! j < v \<and>
        (\<forall>m<length xs. xs ! j \<le> xs ! m) \<and> (\<forall>m<j. xs ! j < xs ! m)"
      then obtain j where j: "j < length xs" "argmin_aux xs (Suc i) best v = Suc i + j"
        "xs ! j < v" "\<forall>m<length xs. xs ! j \<le> xs ! m" "\<forall>m<j. xs ! j < xs ! m"
        by blast
      have 1: "\<forall>m < length (x # xs). (x # xs) ! Suc j \<le> (x # xs) ! m"
        using j False by (auto simp: nth_Cons split: nat.splits)
      have 2: "\<forall>m < Suc j. (x # xs) ! Suc j < (x # xs) ! m"
        using j False by (auto simp: nth_Cons split: nat.splits)
      show ?thesis using False j 1 2
        by (intro disjI2 exI[of _ "Suc j"]) simp
    qed
  qed
qed

lemma argmin_spec:
  assumes "argmin xs = Inr i"
  shows "i < length xs \<and> (\<forall>m < length xs. xs ! i \<le> xs ! m) \<and> (\<forall>m < i. xs ! i < xs ! m)"
proof (cases xs)
  case Nil
  with assms show ?thesis by (simp add: argmin_def)
next
  case (Cons x rest)
  with assms have i: "i = argmin_aux rest 1 0 x" by (simp add: argmin_def)
  from argmin_aux_spec[of rest 1 0 x] show ?thesis
  proof
    assume a: "argmin_aux rest 1 0 x = 0 \<and> (\<forall>y \<in> set rest. x \<le> y)"
    then have "\<forall>m < length xs. xs ! 0 \<le> xs ! m"
      using Cons by (auto simp: nth_Cons split: nat.splits)
    then show ?thesis using a i Cons by simp
  next
    assume "\<exists>j<length rest. argmin_aux rest 1 0 x = 1 + j \<and> rest ! j < x \<and>
        (\<forall>m<length rest. rest ! j \<le> rest ! m) \<and> (\<forall>m<j. rest ! j < rest ! m)"
    then obtain j where j: "j < length rest" "argmin_aux rest 1 0 x = 1 + j" "rest ! j < x"
        "\<forall>m<length rest. rest ! j \<le> rest ! m" "\<forall>m<j. rest ! j < rest ! m"
      by blast
    have 1: "\<forall>m < length xs. xs ! Suc j \<le> xs ! m"
      using j Cons by (auto simp: nth_Cons split: nat.splits)
    have 2: "\<forall>m < Suc j. xs ! Suc j < xs ! m"
      using j Cons by (auto simp: nth_Cons split: nat.splits)
    show ?thesis using i j 1 2 Cons by simp
  qed
qed

lemma argmin_total: "xs \<noteq> [] \<Longrightarrow> \<exists>i. argmin xs = Inr i"
  by (cases xs) (simp_all add: argmin_def)

lemma nearest_index_spec:
  assumes "nearest_index ts t = Inr i"
  shows "i < length ts \<and> (\<forall>m < length ts. \<bar>ts ! i - t\<bar> \<le> \<bar>ts ! m - t\<bar>) \<and>
         (\<forall>m < i. \<bar>ts ! i - t\<bar> < \<bar>ts ! m - t\<bar>)"
proof -
  let ?d = "map (\<lambda>x. \<bar>x - t\<bar>) ts"
  note sp = argmin_spec[OF assms[unfolded nearest_index_def]]
  from sp have i: "i < length ts" by simp
  from sp have sa: "\<forall>m < length ?d. ?d ! i \<le> ?d ! m" by blast
  from sp have sb: "\<forall>m < i. ?d ! i < ?d ! m" by blast
  have n: "?d ! m = \<bar>ts ! m - t\<bar>" if "m < length ts" for m
    using that by simp
  have "\<bar>ts ! i - t\<bar> \<le> \<bar>ts ! m - t\<bar>" if "m < length ts" for m
  proof -
    from sa that have "?d ! i \<le> ?d ! m" by simp
    then show ?thesis using n[OF that] n[OF i] by simp
  qed
  moreover have "\<bar>ts ! i - t\<bar> < \<bar>ts ! m - t\<bar>" if "m < i" for m
  proof -
    from sb that have "?d ! i < ?d ! m" by blast
    moreover have "m < length ts" using that i by simp
    ultimately show ?thesis using n[of m] n[OF i] by simp
  qed
  ultimately show ?thesis using i by blast
qed

lemma calculate_areas_spec:
  assumes "calculate_areas chromatogram bs = Inr areas"
  shows "length areas = length bs \<and>
         (\<forall>i < length bs. peak_area chromatogram (bs ! i) = Inr (areas ! i))"
  using assms
proof (induction bs arbitrary: areas)
  case Nil
  then show ?case by simp
next
  case (Cons b bs)
  from Cons.prems obtain a rest where a: "peak_area chromatogram b = Inr a"
    and r: "calculate_areas chromatogram bs = Inr rest" and ar: "areas = a # rest"
    by (auto split: sum.splits)
  from Cons.IH[OF r] a ar show ?case
    by (auto simp: nth_Cons split: nat.splits)
qed




subsection \<open>The concrete chromatogram, evaluated\<close>

lemma ex_detect:
  "detect_peaks_scipy ex_find_peaks ex_chromatogram ex_settings =
     Inr (\<lparr>peak_indices = [1, 3], peak_rts = [1.0001, 1.0003], peak_heights = [100, 120],
           peak_widths = [0.0002, 0.0002],
           peak_boarders = [(1, 1.0002), (1.0002, 1.0004)],
           peak_areas = [55, 65]\<rparr>, \<lparr>store = Map.empty, scan_rate = 0.0001\<rparr>)"
  by (simp add: detect_peaks_scipy_def ex_find_peaks_def ex_chromatogram_def ex_settings_def
      Let_def time_values_def intensities_def np_min_def pop_def np_median_def getitem_def
      peak_area_def nearest_index_def argmin_def slice_def simpson_def fun_eq_iff)


lemma ex_extract:
  "extract_mass_spectrum ex_find_peaks within_tolerance ex_scans [1.0001, 1.0003] [1, 3]
     \<lparr>store = Map.empty, scan_rate = 0.0001\<rparr> =
   Inr ([1.0001 \<mapsto> [(50, 300), (77, 0)], 1.0003 \<mapsto> [(50, 300), (77, 500)]],
        \<lparr>store = Map.empty, scan_rate = 0.0001\<rparr>)"
  by (simp add: extract_mass_spectrum_def pop_def mass_trace_body_def peak_index_body_def
      index_body_def record_intensity_def getitem_def empty_spectra_def ex_scans_def
      ex_find_peaks_def within_tolerance_def Let_def fun_eq_iff)

lemma ex_initialize:
  "initialize_peaks [1.0001, 1.0003] [100, 120] [0.0002, 0.0002]
     [(1, 1.0002), (1.0002, 1.0004)]
     [1.0001 \<mapsto> [(50, 300), (77, 0)], 1.0003 \<mapsto> [(50, 300), (77, 500)]] [55, 65]
   = Inr [(1, ex_ms_peak)]"
  by (simp add: initialize_peaks_def initialize_body_def make_peak_def getitem_def np_max_def
      round3_def round_half_even_def ex_ms_peak_def Let_def upt_rec)

lemma ex_pick_peaks:
  "pick_peaks ex_find_peaks within_tolerance ex_chromatogram ex_scans ex_settings =
     Inr ([(1, ex_ms_peak)], \<lparr>store = Map.empty, scan_rate = 0.0001\<rparr>)"
  unfolding pick_peaks_def ex_detect sum.case prod.case detected.select_convs ex_extract
    ex_initialize
  by (rule refl)

subsection \<open>Areas\<close>

lemma alist_update_mem:
  "(k', v') \<in> set (AList.update k v al) \<Longrightarrow> (k', v') = (k, v) \<or> (k', v') \<in> set al"
  by (induction al) (auto split: if_splits)

lemma make_peak_fields:
  assumes "make_peak heights widths boarders mass_spectra areas i r = Inr p"
  shows "ms_rt p = round3 r \<and> getitem areas i = Inr (ms_area p) \<and>
         getitem boarders i = Inr (ms_boarders p) \<and> getitem heights i = Inr (ms_height p) \<and>
         getitem widths i = Inr (ms_width p)"
  using assms
  by (auto simp: make_peak_def Let_def split: sum.splits option.splits)

lemma initialize_body_Inr:
  assumes "initialize_body heights widths boarders mass_spectra areas acc x = Inr acc'"
  shows "\<exists>q. make_peak heights widths boarders mass_spectra areas (fst x) (snd x) = Inr q \<and>
             acc' = AList.update (ms_rt q) q acc"
  using assms by (auto simp: initialize_body_def split: sum.splits)

lemma initialize_loop_mem:
  assumes "for_each (initialize_body heights widths boarders mass_spectra areas) items acc = Inr pks"
    and "(k, p) \<in> set pks"
  shows "(k, p) \<in> set acc \<or>
         (\<exists>item \<in> set items.
            make_peak heights widths boarders mass_spectra areas (fst item) (snd item) = Inr p \<and>
            k = ms_rt p)"
  using assms
proof (induction items arbitrary: acc)
  case Nil
  then show ?case by simp
next
  case (Cons x xs)
  from Cons.prems(1) obtain acc' where
    b: "initialize_body heights widths boarders mass_spectra areas acc x = Inr acc'" and
    r0: "for_each (initialize_body heights widths boarders mass_spectra areas) xs acc' = Inr pks"
    by (auto split: sum.splits)
  from initialize_body_Inr[OF b] r0 obtain q where
    q: "make_peak heights widths boarders mass_spectra areas (fst x) (snd x) = Inr q" and
    r: "for_each (initialize_body heights widths boarders mass_spectra areas) xs
          (AList.update (ms_rt q) q acc) = Inr pks"
    by auto
  from Cons.IH[OF r Cons.prems(2)] show ?case
  proof
    assume "(k, p) \<in> set (AList.update (ms_rt q) q acc)"
    from alist_update_mem[OF this] show ?thesis using q by auto
  next
    assume "\<exists>item\<in>set xs.
       make_peak heights widths boarders mass_spectra areas (fst item) (snd item) = Inr p \<and>
       k = ms_rt p"
    then show ?thesis by auto
  qed
qed

lemma initialize_peaks_mem:
  assumes "initialize_peaks rts heights widths boarders mass_spectra areas = Inr pks"
    and "(k, p) \<in> set pks"
  shows "\<exists>i < length rts.
           make_peak heights widths boarders mass_spectra areas i (rts ! i) = Inr p \<and> k = ms_rt p"
proof -
  from initialize_loop_mem[OF assms(1)[unfolded initialize_peaks_def] assms(2)]
  obtain item where item: "item \<in> set (zip [0..<length rts] rts)"
    "make_peak heights widths boarders mass_spectra areas (fst item) (snd item) = Inr p"
    "k = ms_rt p"
    by auto
  from item(1) obtain j where "j < length rts" "item = (j, rts ! j)"
    by (auto simp: set_zip)
  with item show ?thesis by auto
qed

lemma detect_areas:
  assumes "detect_peaks_scipy find_peaks chromatogram s0 = Inr (d, s1)"
  shows "calculate_areas chromatogram (peak_boarders d) = Inr (peak_areas d)"
  using assms
  by (auto simp: detect_peaks_scipy_def Let_def split: sum.splits prod.splits if_splits)

lemma pick_peaks_stages:
  assumes "pick_peaks find_peaks check_interval chromatogram scans s0 = Inr (pks, s2)"
  shows "\<exists>d s1 mass_spectra.
           detect_peaks_scipy find_peaks chromatogram s0 = Inr (d, s1) \<and>
           extract_mass_spectrum find_peaks check_interval scans (peak_rts d) (peak_indices d) s1
             = Inr (mass_spectra, s2) \<and>
           initialize_peaks (peak_rts d) (peak_heights d) (peak_widths d) (peak_boarders d)
             mass_spectra (peak_areas d) = Inr pks"
  using assms
  by (auto simp: pick_peaks_def split: sum.splits prod.splits)

text \<open>
  Claim C7, as amended. For every peak that \<open>pick_peaks\<close> returns, the stored area is
  \<open>scipy.integrate.simpson\<close> with unit sample spacing applied to the intensities at the
  sample indices from \<open>start_idx\<close> up to, and not including, \<open>end_idx\<close>, where the two
  indices are those of the samples nearest in time to the peak's left and right border.
  The area is in intensity times samples, not in intensity times time.
\<close>

theorem stored_area_is_simpson_over_samples:
  assumes "pick_peaks find_peaks check_interval chromatogram scans s0 = Inr (pks, s2)"
    and "(k, p) \<in> set pks"
  shows "\<exists>start_idx end_idx.
           nearest_index (time_values chromatogram) (fst (ms_boarders p)) = Inr start_idx \<and>
           nearest_index (time_values chromatogram) (snd (ms_boarders p)) = Inr end_idx \<and>
           start_idx < length chromatogram \<and> end_idx < length chromatogram \<and>
           (\<forall>m < length chromatogram.
              \<bar>time_values chromatogram ! start_idx - fst (ms_boarders p)\<bar>
                \<le> \<bar>time_values chromatogram ! m - fst (ms_boarders p)\<bar> \<and>
              \<bar>time_values chromatogram ! end_idx - snd (ms_boarders p)\<bar>
                \<le> \<bar>time_values chromatogram ! m - snd (ms_boarders p)\<bar>) \<and>
           simpson (slice (intensities chromatogram) start_idx end_idx) = Inr (ms_area p)"
proof -
  from pick_peaks_stages[OF assms(1)] obtain d s1 mass_spectra where
    det: "detect_peaks_scipy find_peaks chromatogram s0 = Inr (d, s1)" and
    ini: "initialize_peaks (peak_rts d) (peak_heights d) (peak_widths d) (peak_boarders d)
             mass_spectra (peak_areas d) = Inr pks"
    by blast
  from initialize_peaks_mem[OF ini assms(2)] obtain i where
    mk: "make_peak (peak_heights d) (peak_widths d) (peak_boarders d) mass_spectra
           (peak_areas d) i (peak_rts d ! i) = Inr p"
    by blast
  from make_peak_fields[OF mk] have
    ar: "getitem (peak_areas d) i = Inr (ms_area p)" and
    bo: "getitem (peak_boarders d) i = Inr (ms_boarders p)"
    by simp_all
  from bo have ib: "i < length (peak_boarders d)" and b: "peak_boarders d ! i = ms_boarders p"
    by (auto simp: getitem_def split: if_splits)
  from ar have a: "peak_areas d ! i = ms_area p"
    by (auto simp: getitem_def split: if_splits)
  from calculate_areas_spec[OF detect_areas[OF det]] ib b a
  have pa: "peak_area chromatogram (ms_boarders p) = Inr (ms_area p)" by auto
  then obtain s e where
    s: "nearest_index (time_values chromatogram) (fst (ms_boarders p)) = Inr s" and
    e: "nearest_index (time_values chromatogram) (snd (ms_boarders p)) = Inr e" and
    si: "simpson (slice (intensities chromatogram) s e) = Inr (ms_area p)"
    by (auto simp: peak_area_def split: sum.splits)
  have len: "length (time_values chromatogram) = length chromatogram"
    by (simp add: time_values_def)
  from nearest_index_spec[OF s] nearest_index_spec[OF e] s e si len
  show ?thesis by auto
qed

theorem stored_area_is_simpson_over_samples_witness:
  "\<exists>start_idx end_idx.
     nearest_index (time_values ex_chromatogram) 1.0002 = Inr start_idx \<and>
     nearest_index (time_values ex_chromatogram) 1.0004 = Inr end_idx \<and>
     simpson (slice (intensities ex_chromatogram) start_idx end_idx) = Inr 65"
proof -
  have "(1, ex_ms_peak) \<in> set [(1 :: real, ex_ms_peak)]" by simp
  from stored_area_is_simpson_over_samples[OF ex_pick_peaks this]
  show ?thesis by (auto simp: ex_ms_peak_def)
qed

text \<open>
  Claim C7 as stated fails. Five samples half a minute apart, constant intensity 1,
  borders at 0 and 2 minutes: the integral of the intensity between the border times is
  2, the code stores 3 (four samples at unit spacing). With samples one minute apart and
  borders 0 and 4 the integral is 4 and the code stores 3: the sample nearest to the right
  border is left out.
\<close>

theorem area_not_integral_between_border_times:
  "calculate_areas [(0, 1), (1 / 2, 1), (1, 1), (3 / 2, 1), (2, 1)] [(0, 2)] = Inr [3] \<and>
   claimed_area [(0, 1), (1 / 2, 1), (1, 1), (3 / 2, 1), (2, 1)] (0, 2) = Inr 2 \<and>
   calculate_areas [(0, 1), (1, 1), (2, 1), (3, 1), (4, 1)] [(0, 4)] = Inr [3] \<and>
   claimed_area [(0, 1), (1, 1), (2, 1), (3, 1), (4, 1)] (0, 4) = Inr 4"
  by (simp add: peak_area_def claimed_area_def nearest_index_def argmin_def time_values_def
      intensities_def slice_def simpson_def Let_def numeral_3_eq_3)






subsection \<open>Construction of the peak dictionary\<close>

lemma ex_extract_flat:
  "extract_mass_spectrum ex_find_peaks within_tolerance ex_scans_flat [1.0001, 1.0003] [1, 3]
     \<lparr>store = Map.empty, scan_rate = 0.0001\<rparr> =
   Inr ([1.0001 \<mapsto> [], 1.0003 \<mapsto> []], \<lparr>store = Map.empty, scan_rate = 0.0001\<rparr>)"
  by (simp add: extract_mass_spectrum_def pop_def mass_trace_body_def peak_index_body_def
      index_body_def record_intensity_def getitem_def empty_spectra_def ex_scans_flat_def
      ex_find_peaks_def within_tolerance_def Let_def fun_eq_iff)

lemma ex_initialize_flat:
  "initialize_peaks [1.0001, 1.0003] [100, 120] [0.0002, 0.0002]
     [(1, 1.0002), (1.0002, 1.0004)] [1.0001 \<mapsto> [], 1.0003 \<mapsto> []] [55, 65]
   = Inl ValueError"
  by (simp add: initialize_peaks_def initialize_body_def make_peak_def getitem_def np_max_def
      Let_def upt_rec)

text \<open>
  Claim C4, at inputs where the code departs from it. A single primary peak whose
  spectrum is empty: \<open>np.max\<close> of the empty intensity list raises a value error and no
  peak is built. The same happens through \<open>pick_peaks\<close> on the concrete chromatogram
  with a flat mass trace, where no channel is attributed to either primary peak.
\<close>

theorem empty_spectrum_raises:
  "initialize_peaks [r] [h] [w] [b] (empty_spectra [r]) [a] = Inl ValueError \<and>
   pick_peaks ex_find_peaks within_tolerance ex_chromatogram ex_scans_flat ex_settings
     = Inl ValueError"
proof
  show "initialize_peaks [r] [h] [w] [b] (empty_spectra [r]) [a] = Inl ValueError"
    by (simp add: initialize_peaks_def initialize_body_def make_peak_def getitem_def np_max_def
        empty_spectra_def Let_def)
  show "pick_peaks ex_find_peaks within_tolerance ex_chromatogram ex_scans_flat ex_settings
     = Inl ValueError"
    unfolding pick_peaks_def ex_detect sum.case prod.case detected.select_convs ex_extract_flat
      ex_initialize_flat
    by (rule refl)
qed

lemma initialize_loop_keys:
  assumes "for_each (initialize_body heights widths boarders mass_spectra areas) items acc = Inr pks"
  shows "fst ` set pks = fst ` set acc \<union> (\<lambda>item. round3 (snd item)) ` set items \<and>
         (distinct (map fst acc) \<longrightarrow> distinct (map fst pks)) \<and>
         length pks \<le> length acc + length items"
  using assms
proof (induction items arbitrary: acc)
  case Nil
  then show ?case by simp
next
  case (Cons x xs)
  from Cons.prems(1) obtain acc' where
    b: "initialize_body heights widths boarders mass_spectra areas acc x = Inr acc'" and
    r0: "for_each (initialize_body heights widths boarders mass_spectra areas) xs acc' = Inr pks"
    by (auto split: sum.splits)
  from initialize_body_Inr[OF b] obtain q where
    q: "make_peak heights widths boarders mass_spectra areas (fst x) (snd x) = Inr q" and
    acc': "acc' = AList.update (ms_rt q) q acc"
    by auto
  have k: "ms_rt q = round3 (snd x)" using make_peak_fields[OF q] by simp
  have l: "length acc' \<le> Suc (length acc)"
    unfolding acc' by (induction acc) auto
  from Cons.IH[OF r0] l show ?case
    by (auto simp: acc' k AList.dom_update AList.distinct_update)
qed

lemma initialize_loop_frame:
  assumes "for_each (initialize_body heights widths boarders mass_spectra areas) items acc = Inr pks"
    and "\<forall>item \<in> set items. round3 (snd item) \<noteq> k"
  shows "map_of pks k = map_of acc k"
  using assms
proof (induction items arbitrary: acc)
  case Nil
  then show ?case by simp
next
  case (Cons x xs)
  from Cons.prems(1) obtain acc' where
    b: "initialize_body heights widths boarders mass_spectra areas acc x = Inr acc'" and
    r0: "for_each (initialize_body heights widths boarders mass_spectra areas) xs acc' = Inr pks"
    by (auto split: sum.splits)
  from initialize_body_Inr[OF b] obtain q where
    q: "make_peak heights widths boarders mass_spectra areas (fst x) (snd x) = Inr q" and
    acc': "acc' = AList.update (ms_rt q) q acc"
    by auto
  have k: "ms_rt q = round3 (snd x)" using make_peak_fields[OF q] by simp
  have "map_of pks k = map_of acc' k" using Cons.IH[OF r0] Cons.prems(2) by simp
  also have "\<dots> = map_of acc k"
    using Cons.prems(2) by (simp add: acc' k AList.update_conv')
  finally show ?case .
qed

lemma initialize_peaks_last:
  assumes ini: "initialize_peaks rts heights widths boarders mass_spectra areas = Inr pks"
    and i: "i < length rts"
    and last: "\<forall>j < length rts. i < j \<longrightarrow> round3 (rts ! j) \<noteq> round3 (rts ! i)"
  shows "\<exists>p. make_peak heights widths boarders mass_spectra areas i (rts ! i) = Inr p \<and>
             map_of pks (round3 (rts ! i)) = Some p"
proof -
  let ?b = "initialize_body heights widths boarders mass_spectra areas"
  let ?z = "zip [0..<length rts] rts"
  have iz: "i < length ?z" using i by simp
  have zi: "?z ! i = (i, rts ! i)" using i by simp
  have dec: "?z = take i ?z @ (i, rts ! i) # drop (Suc i) ?z"
    using id_take_nth_drop[OF iz] zi by simp
  from ini obtain acc1 acc2 where
    b: "?b acc1 (i, rts ! i) = Inr acc2" and
    r: "for_each ?b (drop (Suc i) ?z) acc2 = Inr pks"
    unfolding initialize_peaks_def
    by (subst (asm) dec) (auto simp: for_each_append split: sum.splits)
  from initialize_body_Inr[OF b] obtain q where
    q: "make_peak heights widths boarders mass_spectra areas i (rts ! i) = Inr q" and
    acc2: "acc2 = AList.update (ms_rt q) q acc1"
    by auto
  have k: "ms_rt q = round3 (rts ! i)" using make_peak_fields[OF q] by simp
  have "\<forall>item \<in> set (drop (Suc i) ?z). round3 (snd item) \<noteq> round3 (rts ! i)"
  proof
    fix item assume "item \<in> set (drop (Suc i) ?z)"
    then obtain m where m: "m < length (drop (Suc i) ?z)" "item = drop (Suc i) ?z ! m"
      by (auto simp: in_set_conv_nth)
    then have "item = (Suc i + m, rts ! (Suc i + m))" and "Suc i + m < length rts"
      by auto
    then show "round3 (snd item) \<noteq> round3 (rts ! i)" using last by simp
  qed
  from initialize_loop_frame[OF r this]
  have "map_of pks (round3 (rts ! i)) = Some q"
    by (simp add: acc2 k AList.update_conv')
  with q show ?thesis by blast
qed


lemma round_half_even_spec:
  "\<bar>of_int (round_half_even y) - y\<bar> \<le> 1 / 2 \<and>
   (\<bar>of_int (round_half_even y) - y\<bar> = 1 / 2 \<longrightarrow> even (round_half_even y))"
proof -
  define f where "f = \<lfloor>y\<rfloor>"
  define d where "d = y - of_int f"
  have d0: "0 \<le> d" "d < 1" unfolding d_def f_def by linarith+
  have r: "round_half_even y =
      (if d < 1 / 2 then f else if 1 / 2 < d then f + 1 else if even f then f else f + 1)"
    by (simp add: round_half_even_def Let_def f_def d_def)
  have y: "y = of_int f + d" by (simp add: d_def)
  consider "d < 1 / 2" | "1 / 2 < d" | "d = 1 / 2" "even f" | "d = 1 / 2" "odd f"
    by fastforce
  then show ?thesis
  proof cases
    case 1
    then have "round_half_even y = f" by (simp add: r)
    then have "\<bar>of_int (round_half_even y) - y\<bar> = d" using d0 y by simp
    then show ?thesis using 1 by simp
  next
    case 2
    then have "round_half_even y = f + 1" by (simp add: r)
    then have "\<bar>of_int (round_half_even y) - y\<bar> = 1 - d" using d0 y by simp
    then show ?thesis using 2 by simp
  next
    case 3
    then have e: "round_half_even y = f" by (simp add: r)
    have a: "\<bar>of_int f - y\<bar> = 1 / 2" using y 3(1) by simp
    show ?thesis unfolding e using a 3(2) by simp
  next
    case 4
    then have e: "round_half_even y = f + 1" by (simp add: r)
    have a: "\<bar>of_int (f + 1) - y\<bar> = 1 / 2" using y 4(1) by simp
    show ?thesis unfolding e using a 4(2) by simp
  qed
qed

lemma round3_spec:
  "\<exists>n :: int. round3 x = of_int n / 1000 \<and> \<bar>round3 x - x\<bar> \<le> 1 / 2000 \<and>
     (\<bar>round3 x - x\<bar> = 1 / 2000 \<longrightarrow> even n)"
proof -
  let ?n = "round_half_even (x * 1000)"
  have "round3 x - x = (of_int ?n - x * 1000) / 1000"
    by (simp add: round3_def diff_divide_distrib)
  then have d: "\<bar>round3 x - x\<bar> = \<bar>of_int ?n - x * 1000\<bar> / 1000"
    by (simp only: abs_divide)
  from round_half_even_spec[of "x * 1000"] have
    a: "\<bar>of_int ?n - x * 1000\<bar> \<le> 1 / 2" and
    b: "\<bar>of_int ?n - x * 1000\<bar> = 1 / 2 \<longrightarrow> even ?n"
    by blast+
  have "\<bar>round3 x - x\<bar> \<le> 1 / 2000" using a d by simp
  moreover have "\<bar>round3 x - x\<bar> = 1 / 2000 \<longrightarrow> even ?n" using b d by simp
  moreover have "round3 x = of_int ?n / 1000" by (simp add: round3_def)
  ultimately show ?thesis by blast
qed

lemma ex_round3: "round3 (10001 / 10000) = 1" "round3 (10003 / 10000) = 1"
  by (simp_all add: round3_def round_half_even_def Let_def)

text \<open>
  Claim C9. When \<open>pick_peaks\<close> returns, its keys are exactly the detected retention
  times rounded to three decimals, no key occurs twice, every peak sits under its own
  rounded retention time, and there are at most as many peaks as were detected. The entry
  of a rounded value is the peak built from the last detected peak that rounds to it (its
  height, width, borders and area), so an earlier one is replaced. Some input yields
  fewer peaks than it has detected peaks. Rounding to three decimals is spelt out: every
  key is a whole number of thousandths within half a thousandth of a detected retention
  time, an even number of thousandths when it is exactly half a thousandth away, and
  \<open>round3\<close> of any number is the whole number of thousandths nearest to it, the even
  one at a tie.
\<close>

theorem peaks_keyed_by_rounded_rt:
  assumes pick: "pick_peaks find_peaks check_interval chromatogram scans s0 = Inr (pks, s2)"
    and det: "detect_peaks_scipy find_peaks chromatogram s0 = Inr (d, s1)"
  shows "fst ` set pks = round3 ` set (peak_rts d) \<and>
         distinct (map fst pks) \<and>
         (\<forall>(k, p) \<in> set pks. ms_rt p = k) \<and>
         length pks \<le> length (peak_rts d) \<and>
         (\<forall>i < length (peak_rts d).
            (\<forall>j < length (peak_rts d). i < j \<longrightarrow>
               round3 (peak_rts d ! j) \<noteq> round3 (peak_rts d ! i)) \<longrightarrow>
            (\<exists>p. map_of pks (round3 (peak_rts d ! i)) = Some p \<and>
                 ms_height p = peak_heights d ! i \<and> ms_width p = peak_widths d ! i \<and>
                 ms_boarders p = peak_boarders d ! i \<and> ms_area p = peak_areas d ! i)) \<and>
         (\<exists>fp ci c sc st ps st' d' s'.
            pick_peaks fp ci c sc st = Inr (ps, st') \<and>
            detect_peaks_scipy fp c st = Inr (d' :: detected, s') \<and>
            length ps < length (peak_rts d')) \<and>
         (\<forall>(k, p) \<in> set pks. \<exists>r \<in> set (peak_rts d). \<exists>n :: int.
            k = of_int n / 1000 \<and> \<bar>k - r\<bar> \<le> 1 / 2000 \<and>
            (\<bar>k - r\<bar> = 1 / 2000 \<longrightarrow> even n)) \<and>
         (\<forall>x. \<exists>n :: int.
            round3 x = of_int n / 1000 \<and> \<bar>round3 x - x\<bar> \<le> 1 / 2000 \<and>
            (\<bar>round3 x - x\<bar> = 1 / 2000 \<longrightarrow> even n))"
proof -
  from pick_peaks_stages[OF pick] det obtain mass_spectra where
    ini: "initialize_peaks (peak_rts d) (peak_heights d) (peak_widths d) (peak_boarders d)
             mass_spectra (peak_areas d) = Inr pks"
    by auto
  note keys = initialize_loop_keys[OF ini[unfolded initialize_peaks_def]]
  have z: "(\<lambda>item. round3 (snd item)) ` set (zip [0..<length (peak_rts d)] (peak_rts d))
           = round3 ` set (peak_rts d)"
  proof -
    have "map snd (zip [0..<length (peak_rts d)] (peak_rts d)) = peak_rts d"
      by (rule map_snd_zip) simp
    then have "snd ` set (zip [0..<length (peak_rts d)] (peak_rts d)) = set (peak_rts d)"
      by (metis set_map)
    then show ?thesis by (simp add: image_image[symmetric])
  qed
  have 1: "fst ` set pks = round3 ` set (peak_rts d)" using keys z by simp
  have 2: "distinct (map fst pks)" using keys by simp
  have 3: "\<forall>(k, p) \<in> set pks. ms_rt p = k"
    using initialize_peaks_mem[OF ini] by auto
  have 4: "length pks \<le> length (peak_rts d)" using keys by simp
  have 5: "\<exists>p. map_of pks (round3 (peak_rts d ! i)) = Some p \<and>
                 ms_height p = peak_heights d ! i \<and> ms_width p = peak_widths d ! i \<and>
                 ms_boarders p = peak_boarders d ! i \<and> ms_area p = peak_areas d ! i"
    if i: "i < length (peak_rts d)"
      and l: "\<forall>j < length (peak_rts d). i < j \<longrightarrow>
               round3 (peak_rts d ! j) \<noteq> round3 (peak_rts d ! i)" for i
  proof -
    from initialize_peaks_last[OF ini i l] obtain p where
      mk: "make_peak (peak_heights d) (peak_widths d) (peak_boarders d) mass_spectra
             (peak_areas d) i (peak_rts d ! i) = Inr p" and
      mp: "map_of pks (round3 (peak_rts d ! i)) = Some p"
      by blast
    from make_peak_fields[OF mk] mp show ?thesis
      by (auto simp: getitem_def split: if_splits)
  qed
  have 6: "\<exists>fp ci c sc st ps st' d' s'.
            pick_peaks fp ci c sc st = Inr (ps, st') \<and>
            detect_peaks_scipy fp c st = Inr (d' :: detected, s') \<and>
            length ps < length (peak_rts d')"
    using ex_pick_peaks ex_detect
    by (intro exI[of _ ex_find_peaks] exI[of _ within_tolerance] exI[of _ ex_chromatogram]
        exI[of _ ex_scans] exI[of _ ex_settings] exI[of _ "[(1, ex_ms_peak)]"] exI conjI)
       (assumption, assumption, simp)
  have 7: "\<forall>(k, p) \<in> set pks. \<exists>r \<in> set (peak_rts d). \<exists>n :: int.
            k = of_int n / 1000 \<and> \<bar>k - r\<bar> \<le> 1 / 2000 \<and>
            (\<bar>k - r\<bar> = 1 / 2000 \<longrightarrow> even n)"
  proof (intro ballI, clarify)
    fix k p assume "(k, p) \<in> set pks"
    from initialize_peaks_mem[OF ini this] obtain i where
      i: "i < length (peak_rts d)" and
      mk: "make_peak (peak_heights d) (peak_widths d) (peak_boarders d) mass_spectra
             (peak_areas d) i (peak_rts d ! i) = Inr p" and
      k: "k = ms_rt p"
      by blast
    from make_peak_fields[OF mk] k have kr: "k = round3 (peak_rts d ! i)" by simp
    from round3_spec[of "peak_rts d ! i"] obtain n :: int where
      "round3 (peak_rts d ! i) = of_int n / 1000"
      "\<bar>round3 (peak_rts d ! i) - peak_rts d ! i\<bar> \<le> 1 / 2000"
      "\<bar>round3 (peak_rts d ! i) - peak_rts d ! i\<bar> = 1 / 2000 \<longrightarrow> even n"
      by blast
    then have "k = of_int n / 1000 \<and> \<bar>k - peak_rts d ! i\<bar> \<le> 1 / 2000 \<and>
            (\<bar>k - peak_rts d ! i\<bar> = 1 / 2000 \<longrightarrow> even n)"
      unfolding kr by blast
    moreover have "peak_rts d ! i \<in> set (peak_rts d)" using i by simp
    ultimately show "\<exists>r \<in> set (peak_rts d). \<exists>n :: int.
            k = of_int n / 1000 \<and> \<bar>k - r\<bar> \<le> 1 / 2000 \<and>
            (\<bar>k - r\<bar> = 1 / 2000 \<longrightarrow> even n)"
      by blast
  qed
  show ?thesis
  proof (intro conjI allI impI)
    show "\<forall>(k, p) \<in> set pks. \<exists>r \<in> set (peak_rts d). \<exists>n :: int.
            k = of_int n / 1000 \<and> \<bar>k - r\<bar> \<le> 1 / 2000 \<and>
            (\<bar>k - r\<bar> = 1 / 2000 \<longrightarrow> even n)" by (rule 7)
    show "\<exists>n :: int.
            round3 x = of_int n / 1000 \<and> \<bar>round3 x - x\<bar> \<le> 1 / 2000 \<and>
            (\<bar>round3 x - x\<bar> = 1 / 2000 \<longrightarrow> even n)" for x
      by (rule round3_spec)
    show "fst ` set pks = round3 ` set (peak_rts d)" by (rule 1)
    show "distinct (map fst pks)" by (rule 2)
    show "\<forall>(k, p) \<in> set pks. ms_rt p = k" by (rule 3)
    show "length pks \<le> length (peak_rts d)" by (rule 4)
    show "\<exists>p. map_of pks (round3 (peak_rts d ! i)) = Some p \<and>
                 ms_height p = peak_heights d ! i \<and> ms_width p = peak_widths d ! i \<and>
                 ms_boarders p = peak_boarders d ! i \<and> ms_area p = peak_areas d ! i"
      if "i < length (peak_rts d)"
        and "\<forall>j < length (peak_rts d). i < j \<longrightarrow>
               round3 (peak_rts d ! j) \<noteq> round3 (peak_rts d ! i)" for i
      using that by (rule 5)
    show "\<exists>fp ci c sc st ps st' d' s'.
            pick_peaks fp ci c sc st = Inr (ps, st') \<and>
            detect_peaks_scipy fp c st = Inr (d' :: detected, s') \<and>
            length ps < length (peak_rts d')" by (rule 6)
  qed
qed

theorem peaks_keyed_by_rounded_rt_witness:
  "fst ` set [(1 :: real, ex_ms_peak)] = round3 ` set [1.0001, 1.0003] \<and>
   distinct (map fst [(1 :: real, ex_ms_peak)]) \<and>
   length [(1 :: real, ex_ms_peak)] \<le> length [1.0001, 1.0003 :: real] \<and>
   (\<exists>p. map_of [(1 :: real, ex_ms_peak)] (round3 1.0003) = Some p \<and>
        ms_height p = 120 \<and> ms_area p = 65) \<and>
   round3 1.0001 = 1 \<and> round3 1.0003 = 1 \<and> round3 2.34567 = 2.346 \<and>
   round3 (1 / 16) = 0.062 \<and> round3 (3 / 16) = 0.188"
proof -
  note t = peaks_keyed_by_rounded_rt[OF ex_pick_peaks ex_detect, unfolded detected.select_convs]
  from t have 1: "fst ` set [(1 :: real, ex_ms_peak)] = round3 ` set [1.0001, 1.0003]"
    by (rule conjunct1)
  from t have 5: "\<forall>i < length [1.0001, 1.0003 :: real].
            (\<forall>j < length [1.0001, 1.0003 :: real]. i < j \<longrightarrow>
               round3 ([1.0001, 1.0003] ! j) \<noteq> round3 ([1.0001, 1.0003] ! i)) \<longrightarrow>
            (\<exists>p. map_of [(1 :: real, ex_ms_peak)] (round3 ([1.0001, 1.0003] ! i)) = Some p \<and>
                 ms_height p = [100, 120] ! i \<and> ms_width p = [0.0002, 0.0002] ! i \<and>
                 ms_boarders p = [(1, 1.0002), (1.0002, 1.0004)] ! i \<and>
                 ms_area p = [55, 65] ! i)"
    by (elim conjE)
  have "\<forall>j < length [1.0001, 1.0003 :: real]. Suc 0 < j \<longrightarrow>
               round3 ([1.0001, 1.0003] ! j) \<noteq> round3 ([1.0001, 1.0003] ! Suc 0)"
    by (simp add: less_Suc_eq)
  with 5[rule_format, of "Suc 0"] have
    2: "\<exists>p. map_of [(1 :: real, ex_ms_peak)] (round3 1.0003) = Some p \<and>
        ms_height p = 120 \<and> ms_area p = 65"
    by (auto simp: ex_round3)
  have 3: "round3 1.0001 = 1 \<and> round3 1.0003 = 1 \<and> round3 2.34567 = 2.346 \<and>
   round3 (1 / 16) = 0.062 \<and> round3 (3 / 16) = 0.188"
    by (simp add: round3_def round_half_even_def Let_def)
  have 4: "distinct (map fst [(1 :: real, ex_ms_peak)]) \<and>
   length [(1 :: real, ex_ms_peak)] \<le> length [1.0001, 1.0003 :: real]"
    by simp
  from 1 2 3 4 show ?thesis by blast
qed


subsection \<open>Mass spectra\<close>

lemma record_establishes:
  assumes "record_intensity rts mt trace p m = Inr m'"
  shows "p < length rts \<and> p < length trace \<and> holds_entry m' (rts ! p) mt (trace ! p) \<and>
         dom m' = dom m"
  using assms
  by (auto simp: record_intensity_def getitem_def holds_entry_def AList.update_conv'
      split: if_splits option.splits sum.splits)

lemma record_preserves_other_channel:
  assumes "record_intensity rts mt' trace' p' m = Inr m'"
    and "holds_entry m key mt v" and "mt' \<noteq> mt"
  shows "holds_entry m' key mt v"
  using assms
  by (auto simp: record_intensity_def getitem_def holds_entry_def AList.update_conv'
      split: if_splits option.splits sum.splits)

lemma record_preserves_same_channel:
  assumes "record_intensity rts mt trace p' m = Inr m'"
    and "holds_entry m (rts ! p) mt (trace ! p)" and "distinct rts" and "p < length rts"
  shows "holds_entry m' (rts ! p) mt (trace ! p)"
proof -
  from record_establishes[OF assms(1)] have p': "p' < length rts" by simp
  show ?thesis
  proof (cases "p' = p")
    case True
    with record_establishes[OF assms(1)] show ?thesis by simp
  next
    case False
    then have "rts ! p' \<noteq> rts ! p"
      using assms(3,4) p' by (simp add: nth_eq_iff_index_eq)
    with assms(1,2) show ?thesis
      by (auto simp: record_intensity_def getitem_def holds_entry_def
          split: if_splits option.splits sum.splits)
  qed
qed

text \<open>The loop over the channel's own peaks.\<close>

lemma index_loop_other_channel:
  assumes "for_each (index_body ci rts mt' trace' p') indices m = Inr m'"
    and "holds_entry m key mt v" and "mt' \<noteq> mt"
  shows "holds_entry m' key mt v"
  using assms
proof (induction indices arbitrary: m)
  case Nil
  then show ?case by simp
next
  case (Cons i rest)
  from Cons.prems(1) obtain m1 where
    b: "index_body ci rts mt' trace' p' m i = Inr m1" and
    r: "for_each (index_body ci rts mt' trace' p') rest m1 = Inr m'"
    by (auto split: sum.splits)
  have "holds_entry m1 key mt v"
    using b Cons.prems(2,3) record_preserves_other_channel
    by (auto simp: index_body_def split: if_splits)
  from Cons.IH[OF r this Cons.prems(3)] show ?case .
qed

lemma index_loop_same_channel:
  assumes "for_each (index_body ci rts mt trace p') indices m = Inr m'"
    and "holds_entry m (rts ! p) mt (trace ! p)" and "distinct rts" and "p < length rts"
  shows "holds_entry m' (rts ! p) mt (trace ! p)"
  using assms
proof (induction indices arbitrary: m)
  case Nil
  then show ?case by simp
next
  case (Cons i rest)
  from Cons.prems(1) obtain m1 where
    b: "index_body ci rts mt trace p' m i = Inr m1" and
    r: "for_each (index_body ci rts mt trace p') rest m1 = Inr m'"
    by (auto split: sum.splits)
  have "holds_entry m1 (rts ! p) mt (trace ! p)"
    using b Cons.prems(2-) record_preserves_same_channel
    by (auto simp: index_body_def split: if_splits)
  from Cons.IH[OF r this Cons.prems(3,4)] show ?case .
qed

lemma index_loop_establishes:
  assumes "for_each (index_body ci rts mt trace p) indices m = Inr m'"
    and "index \<in> set indices" and "ci index p 5" and "distinct rts"
  shows "p < length rts \<and> p < length trace \<and> holds_entry m' (rts ! p) mt (trace ! p)"
  using assms
proof (induction indices arbitrary: m)
  case Nil
  then show ?case by simp
next
  case (Cons i rest)
  from Cons.prems(1) obtain m1 where
    b: "index_body ci rts mt trace p m i = Inr m1" and
    r: "for_each (index_body ci rts mt trace p) rest m1 = Inr m'"
    by (auto split: sum.splits)
  show ?case
  proof (cases "i = index")
    case True
    with b Cons.prems(3) have rec: "record_intensity rts mt trace p m = Inr m1"
      by (simp add: index_body_def)
    from record_establishes[OF rec] have
      p: "p < length rts" "p < length trace" and h: "holds_entry m1 (rts ! p) mt (trace ! p)"
      by simp_all
    from index_loop_same_channel[OF r h Cons.prems(4) p(1)] p show ?thesis by simp
  next
    case False
    with Cons.prems(2) have "index \<in> set rest" by simp
    from Cons.IH[OF r this Cons.prems(3,4)] show ?thesis .
  qed
qed

text \<open>The loop over the primary peaks.\<close>

lemma peak_loop_other_channel:
  assumes "for_each (peak_index_body ci rts mt' trace' indices) ps m = Inr m'"
    and "holds_entry m key mt v" and "mt' \<noteq> mt"
  shows "holds_entry m' key mt v"
  using assms
proof (induction ps arbitrary: m)
  case Nil
  then show ?case by simp
next
  case (Cons q qs)
  from Cons.prems(1) obtain m1 where
    b: "peak_index_body ci rts mt' trace' indices m q = Inr m1" and
    r: "for_each (peak_index_body ci rts mt' trace' indices) qs m1 = Inr m'"
    by (auto split: sum.splits)
  have "holds_entry m1 key mt v"
    using index_loop_other_channel[OF b[unfolded peak_index_body_def] Cons.prems(2,3)] .
  from Cons.IH[OF r this Cons.prems(3)] show ?case .
qed

lemma peak_loop_same_channel:
  assumes "for_each (peak_index_body ci rts mt trace indices) ps m = Inr m'"
    and "holds_entry m (rts ! p) mt (trace ! p)" and "distinct rts" and "p < length rts"
  shows "holds_entry m' (rts ! p) mt (trace ! p)"
  using assms
proof (induction ps arbitrary: m)
  case Nil
  then show ?case by simp
next
  case (Cons q qs)
  from Cons.prems(1) obtain m1 where
    b: "peak_index_body ci rts mt trace indices m q = Inr m1" and
    r: "for_each (peak_index_body ci rts mt trace indices) qs m1 = Inr m'"
    by (auto split: sum.splits)
  have "holds_entry m1 (rts ! p) mt (trace ! p)"
    using index_loop_same_channel[OF b[unfolded peak_index_body_def] Cons.prems(2-)] .
  from Cons.IH[OF r this Cons.prems(3,4)] show ?case .
qed

lemma peak_loop_establishes:
  assumes "for_each (peak_index_body ci rts mt trace indices) ps m = Inr m'"
    and "p \<in> set ps" and "index \<in> set indices" and "ci index p 5" and "distinct rts"
  shows "p < length rts \<and> p < length trace \<and> holds_entry m' (rts ! p) mt (trace ! p)"
  using assms
proof (induction ps arbitrary: m)
  case Nil
  then show ?case by simp
next
  case (Cons q qs)
  from Cons.prems(1) obtain m1 where
    b: "peak_index_body ci rts mt trace indices m q = Inr m1" and
    r: "for_each (peak_index_body ci rts mt trace indices) qs m1 = Inr m'"
    by (auto split: sum.splits)
  show ?case
  proof (cases "q = p")
    case True
    from index_loop_establishes[OF b[unfolded peak_index_body_def True] Cons.prems(3-)]
    have p: "p < length rts" "p < length trace" and h: "holds_entry m1 (rts ! p) mt (trace ! p)"
      by simp_all
    from peak_loop_same_channel[OF r h Cons.prems(5) p(1)] p show ?thesis by simp
  next
    case False
    with Cons.prems(2) have "p \<in> set qs" by simp
    from Cons.IH[OF r this Cons.prems(3-)] show ?thesis .
  qed
qed


text \<open>The loop over the channels.\<close>

lemma channel_loop_preserves:
  assumes "for_each (mass_trace_body fp ci scans ps prom) cols m = Inr m'"
    and "holds_entry m key mt v" and "mt \<notin> fst ` set cols"
  shows "holds_entry m' key mt v"
  using assms
proof (induction cols arbitrary: m)
  case Nil
  then show ?case by simp
next
  case (Cons c cs)
  from Cons.prems(1) obtain m1 where
    b: "mass_trace_body fp ci scans ps prom m c = Inr m1" and
    r: "for_each (mass_trace_body fp ci scans ps prom) cs m1 = Inr m'"
    by (auto split: sum.splits)
  have ne: "fst c \<noteq> mt" using Cons.prems(3) by auto
  have "holds_entry m1 key mt v"
    using peak_loop_other_channel[OF b[unfolded mass_trace_body_def Let_def] Cons.prems(2) ne] .
  moreover have "mt \<notin> fst ` set cs" using Cons.prems(3) by auto
  ultimately show ?case using Cons.IH[OF r] by blast
qed

lemma channel_loop_establishes:
  assumes run: "for_each (mass_trace_body fp ci scans ps prom) cols m = Inr m'"
    and col: "(mt, trace) \<in> set cols" and dist: "distinct (map fst cols)"
    and idx: "index \<in> set (fp_indices (fp trace
               \<lparr>fp_prominence = Fin prom, fp_width = None, fp_height = None,
                fp_rel_height = 1 / 2\<rparr>))"
    and p: "p \<in> set ps" and near: "ci index p 5"
    and times: "distinct (scan_index scans)"
  shows "p < length (scan_index scans) \<and> p < length trace \<and>
         holds_entry m' (scan_index scans ! p / 60000) mt (trace ! p)"
  using run col dist
proof (induction cols arbitrary: m)
  case Nil
  then show ?case by simp
next
  case (Cons c cs)
  let ?rts = "map (\<lambda>t. t / 60000) (scan_index scans)"
  have drts: "distinct ?rts"
    using times by (simp add: distinct_map inj_on_def)
  from Cons.prems(1) obtain m1 where
    b: "mass_trace_body fp ci scans ps prom m c = Inr m1" and
    r: "for_each (mass_trace_body fp ci scans ps prom) cs m1 = Inr m'"
    by (auto split: sum.splits)
  show ?case
  proof (cases "c = (mt, trace)")
    case True
    note b' = b[unfolded mass_trace_body_def Let_def True fst_conv snd_conv]
    have "p < length ?rts \<and> p < length trace \<and> holds_entry m1 (?rts ! p) mt (trace ! p)"
      by (rule peak_loop_establishes[OF b' p idx near drts])
    then have pl: "p < length (scan_index scans)" "p < length trace"
      and h0: "holds_entry m1 (?rts ! p) mt (trace ! p)"
      by (simp, simp, blast)
    have h: "holds_entry m1 (scan_index scans ! p / 60000) mt (trace ! p)"
      using h0 pl(1) by simp
    have "mt \<notin> fst ` set cs" using Cons.prems(3) True by simp
    from channel_loop_preserves[OF r h this] pl show ?thesis by simp
  next
    case False
    with Cons.prems(2) have "(mt, trace) \<in> set cs" by simp
    moreover have "distinct (map fst cs)" using Cons.prems(3) by simp
    ultimately show ?thesis using Cons.IH[OF r] by blast
  qed
qed

text \<open>The extraction returns on well-formed input.\<close>

lemma record_total:
  assumes "p < length rts" "p < length trace" "rts ! p \<in> dom m"
  shows "\<exists>m'. record_intensity rts mt trace p m = Inr m' \<and> dom m' = dom m"
  using assms by (auto simp: record_intensity_def getitem_def)

lemma index_loop_total:
  assumes "p < length rts" "p < length trace" "rts ! p \<in> dom m"
  shows "\<exists>m'. for_each (index_body ci rts mt trace p) indices m = Inr m' \<and> dom m' = dom m"
  using assms(3)
proof (induction indices arbitrary: m)
  case Nil
  then show ?case by simp
next
  case (Cons i rest)
  obtain m1 where b: "index_body ci rts mt trace p m i = Inr m1" and d: "dom m1 = dom m"
    using record_total[OF assms(1,2) Cons.prems, of mt]
    by (cases "ci i p 5") (auto simp: index_body_def)
  from Cons.IH[of m1] Cons.prems d obtain m' where
    "for_each (index_body ci rts mt trace p) rest m1 = Inr m'" "dom m' = dom m1"
    by auto
  with b d show ?case by simp
qed

lemma peak_loop_total:
  assumes "\<forall>p \<in> set ps. p < length rts \<and> p < length trace \<and> rts ! p \<in> dom m"
  shows "\<exists>m'. for_each (peak_index_body ci rts mt trace indices) ps m = Inr m' \<and>
              dom m' = dom m"
  using assms
proof (induction ps arbitrary: m)
  case Nil
  then show ?case by simp
next
  case (Cons q qs)
  from Cons.prems have q: "q < length rts" "q < length trace" "rts ! q \<in> dom m" by simp_all
  from index_loop_total[OF q] obtain m1 where
    b: "peak_index_body ci rts mt trace indices m q = Inr m1" and d: "dom m1 = dom m"
    unfolding peak_index_body_def by blast
  have "\<forall>p \<in> set qs. p < length rts \<and> p < length trace \<and> rts ! p \<in> dom m1"
    using Cons.prems d by simp
  from Cons.IH[OF this] obtain m' where
    "for_each (peak_index_body ci rts mt trace indices) qs m1 = Inr m'" "dom m' = dom m1"
    by auto
  with b d show ?case by simp
qed

lemma channel_loop_total:
  assumes "\<forall>c \<in> set cols. length (snd c) = length (scan_index scans)"
    and "\<forall>p \<in> set ps. p < length (scan_index scans) \<and> scan_index scans ! p / 60000 \<in> dom m"
  shows "\<exists>m'. for_each (mass_trace_body fp ci scans ps prom) cols m = Inr m' \<and> dom m' = dom m"
  using assms
proof (induction cols arbitrary: m)
  case Nil
  then show ?case by simp
next
  case (Cons c cs)
  let ?rts = "map (\<lambda>t. t / 60000) (scan_index scans)"
  have "\<forall>p \<in> set ps. p < length ?rts \<and> p < length (snd c) \<and> ?rts ! p \<in> dom m"
    using Cons.prems by simp
  from peak_loop_total[OF this] obtain m1 where
    b: "mass_trace_body fp ci scans ps prom m c = Inr m1" and d: "dom m1 = dom m"
    unfolding mass_trace_body_def Let_def by blast
  have 1: "\<forall>c \<in> set cs. length (snd c) = length (scan_index scans)"
    using Cons.prems(1) by simp
  have 2: "\<forall>p \<in> set ps. p < length (scan_index scans) \<and>
             scan_index scans ! p / 60000 \<in> dom m1"
    using Cons.prems(2) d by simp
  from Cons.IH[OF 1 2] obtain m' where
    "for_each (mass_trace_body fp ci scans ps prom) cs m1 = Inr m'" "dom m' = dom m1"
    by auto
  with b d show ?case by simp
qed

lemma dom_fold_empty:
  "dom (fold (\<lambda>i m. m(i \<mapsto> [])) rts m0) = dom m0 \<union> set rts"
  by (induction rts arbitrary: m0) auto

lemma dom_empty_spectra: "dom (empty_spectra rts) = set rts"
  by (simp add: empty_spectra_def dom_fold_empty)

lemma extract_total:
  assumes "\<forall>c \<in> set (scan_columns scans). length (snd c) = length (scan_index scans)"
    and "\<forall>p \<in> set pk_indices. p < length (scan_index scans) \<and>
           scan_index scans ! p / 60000 \<in> set pk_rts"
  shows "\<exists>ms s1. extract_mass_spectrum fp ci scans pk_rts pk_indices s0 = Inr (ms, s1)"
proof -
  obtain prom s' where ps: "pop ''trace_prominence'' 220 s0 = (prom, s')"
    by (cases "pop ''trace_prominence'' 220 s0")
  have "\<forall>p \<in> set pk_indices. p < length (scan_index scans) \<and>
           scan_index scans ! p / 60000 \<in> dom (empty_spectra pk_rts)"
    using assms(2) by (simp add: dom_empty_spectra)
  from channel_loop_total[OF assms(1) this] obtain m' where
    "for_each (mass_trace_body fp ci scans pk_indices prom) (scan_columns scans)
       (empty_spectra pk_rts) = Inr m'"
    by blast
  then show ?thesis by (simp add: extract_mass_spectrum_def ps)
qed

text \<open>
  Claim C6. Let the extraction return the spectra, with distinct channel labels and
  distinct scan times. For every channel, every index \<open>find_peaks\<close> detects on that
  channel and every primary peak index that \<open>check_interval\<close> accepts against it with
  tolerance 5, the spectrum stored under the primary peak's retention time maps the
  channel to the channel's intensity at the primary peak's own index. The extraction does
  return whenever every channel is as long as the scan index and every primary peak index
  lies in it with its scan time among the given retention times.
\<close>

theorem spectrum_entry_is_intensity_at_primary_index:
  assumes run: "extract_mass_spectrum find_peaks check_interval scans pk_rts pk_indices s0
                  = Inr (mass_spectrums, s1)"
    and col: "(mass_trace, trace) \<in> set (scan_columns scans)"
    and labels: "distinct (map fst (scan_columns scans))"
    and times: "distinct (scan_index scans)"
    and idx: "index \<in> set (fp_indices (find_peaks trace
               \<lparr>fp_prominence = Fin (fst (pop ''trace_prominence'' 220 s0)), fp_width = None,
                fp_height = None, fp_rel_height = 1 / 2\<rparr>))"
    and pk: "peak_index \<in> set pk_indices"
    and near: "check_interval index peak_index 5"
  shows "peak_index < length trace \<and>
         (\<exists>sp. mass_spectrums (scan_index scans ! peak_index / 60000) = Some sp \<and>
               map_of sp mass_trace = Some (trace ! peak_index)) \<and>
         ((\<forall>c \<in> set (scan_columns sc). length (snd c) = length (scan_index sc)) \<and>
          (\<forall>p \<in> set pis. p < length (scan_index sc) \<and> scan_index sc ! p / 60000 \<in> set prts)
          \<longrightarrow> (\<exists>ms s. extract_mass_spectrum find_peaks check_interval sc prts pis st
                         = Inr (ms, s)))"
proof -
  obtain prom s' where ps: "pop ''trace_prominence'' 220 s0 = (prom, s')"
    by (cases "pop ''trace_prominence'' 220 s0")
  from run ps have
    loop: "for_each (mass_trace_body find_peaks check_interval scans pk_indices prom)
             (scan_columns scans) (empty_spectra pk_rts) = Inr mass_spectrums"
    by (auto simp: extract_mass_spectrum_def split: sum.splits)
  from idx ps have idx': "index \<in> set (fp_indices (find_peaks trace
               \<lparr>fp_prominence = Fin prom, fp_width = None, fp_height = None,
                fp_rel_height = 1 / 2\<rparr>))"
    by simp
  from channel_loop_establishes[OF loop col labels idx' pk near times]
  have "peak_index < length trace \<and>
         (\<exists>sp. mass_spectrums (scan_index scans ! peak_index / 60000) = Some sp \<and>
               map_of sp mass_trace = Some (trace ! peak_index))"
    by (auto simp: holds_entry_def split: option.splits)
  then show ?thesis using extract_total by blast
qed

theorem spectrum_entry_is_intensity_at_primary_index_witness:
  "\<exists>ms s. extract_mass_spectrum ex_find_peaks within_tolerance ex_scans [1.0001, 1.0003] [1, 3]
            \<lparr>store = Map.empty, scan_rate = 0.0001\<rparr> = Inr (ms, s) \<and>
          (\<exists>sp. ms 1.0001 = Some sp \<and> map_of sp 77 = Some 0)"
proof -
  have idx: "3 \<in> set (fp_indices (ex_find_peaks [0, 0, 0, 500, 0]
               \<lparr>fp_prominence = Fin (fst (pop ''trace_prominence'' 220
                    \<lparr>store = Map.empty, scan_rate = 0.0001\<rparr>)), fp_width = None,
                fp_height = None, fp_rel_height = 1 / 2\<rparr>))"
    by (simp add: ex_find_peaks_def)
  have col: "(77, [0, 0, 0, 500, 0]) \<in> set (scan_columns ex_scans)"
    by (simp add: ex_scans_def)
  have labels: "distinct (map fst (scan_columns ex_scans))"
    by (simp add: ex_scans_def)
  have times: "distinct (scan_index ex_scans)"
    by (simp add: ex_scans_def)
  have pk: "1 \<in> set [1, 3 :: nat]" by simp
  have near: "within_tolerance 3 1 5" by (simp add: within_tolerance_def)
  from spectrum_entry_is_intensity_at_primary_index[OF ex_extract col labels times idx pk near]
  have "\<exists>sp. [1.0001 \<mapsto> [(50 :: real, 300), (77, 0)],
                1.0003 \<mapsto> [(50, 300), (77, 500 :: real)]]
               (scan_index ex_scans ! 1 / 60000 :: real) = Some sp \<and>
             map_of sp 77 = Some ([0, 0, 0, 500, 0] ! 1)"
    by blast
  then have "\<exists>sp. [1.0001 \<mapsto> [(50 :: real, 300), (77, 0)],
                1.0003 \<mapsto> [(50, 300), (77, 500 :: real)]]
               (1.0001 :: real) = Some sp \<and> map_of sp 77 = Some 0"
    by (simp add: ex_scans_def)
  with ex_extract show ?thesis by blast
qed

end
